theory Spec2Isabelle
  imports Complex_Main "HOL-Library.Sublist"
begin

section \<open>EfficientDet model function: learning-rate schedules and detection loss\<close>

text \<open>
  A shallow embedding of \<^verbatim>\<open>efficientdet/det_model_fn.py\<close>.

  Conventions of the embedding.
  \<^item> A float32 scalar or tensor element is a \<^typ>\<open>real\<close>: the model's value is the exact
    value that the float32 result rounds. Rounding, overflow and the non-finite values
    (inf, NaN) of the hardware are outside the model, so no statement below truncates
    such a value or separates two of them that rounding could make equal. Where a
    statement fixes a concrete value that a division yields, it carries the hypothesis
    that the divisor is not zero.
  \<^item> A Python float is a binary64 number: every Python arithmetic operation is the
    exact operation followed by rounding to the nearest binary64 value, ties to even
    (\<open>fl64\<close>, with an unbounded exponent range: no overflow, no subnormal numbers).
  \<^item> A tensor is the list of its elements in row-major order (a reshape keeps this
    list); an elementwise operation is a \<open>map2\<close>.
  \<^item> A Python integer is an \<^typ>\<open>int\<close>, a Python string a \<^typ>\<open>string\<close>.
  \<^item> The parameter dictionary is a record; a key read with \<^verbatim>\<open>params.get\<close> is an
    option field.
  \<^item> A raised exception is the \<open>Inl\<close> branch of a sum.
  \<^item> Python names that start with an underscore lose it: \<^verbatim>\<open>_box_loss\<close> is
    \<open>box_loss\<close>, \<^verbatim>\<open>_model_fn\<close> is \<open>model_fn\<close>.
\<close>

subsection \<open>Errors and Python helpers\<close>

datatype error =
    ValueError string
  | RuntimeError string
  | ZeroDivisionError
  | KeyError string int

text \<open>Python's \<^verbatim>\<open>int(x)\<close> on a float: truncation toward zero.\<close>

definition py_int :: "real \<Rightarrow> int" where
  "py_int x = (if 0 \<le> x then \<lfloor>x\<rfloor> else \<lceil>x\<rceil>)"

text \<open>Rounding to the nearest integer, ties to the even one.\<close>

definition round_half_even :: "real \<Rightarrow> int" where
  "round_half_even q =
     (let f = \<lfloor>q\<rfloor>;
          d = q - of_int f
      in if d < 1 / 2 then f
         else if 1 / 2 < d then f + 1
         else if even f then f else f + 1)"

text \<open>
  Rounding of a real to binary64: with \<open>2^e \<le> |x| < 2^(e+1)\<close>, the nearest multiple of
  \<open>2^(e-52)\<close> (53 significant bits), ties to the even multiple.
\<close>

definition fl64 :: "real \<Rightarrow> real" where
  "fl64 x =
     (if x = 0 then 0
      else
        let e = \<lfloor>log 2 \<bar>x\<bar>\<rfloor>;
            u = 2 powi (e - 52)
        in of_int (round_half_even (x / u)) * u)"

text \<open>Python's \<^verbatim>\<open>sub in s\<close> on strings.\<close>

fun py_in :: "string \<Rightarrow> string \<Rightarrow> bool" where
  "py_in sub [] = (sub = [])"
| "py_in sub (c # cs) = (prefix sub (c # cs) \<or> py_in sub cs)"

text \<open>Python's \<^verbatim>\<open>str.lower\<close> on the ASCII letters.\<close>

definition lower_char :: "char \<Rightarrow> char" where
  "lower_char c =
     (let n = (of_char c :: nat)
      in if 65 \<le> n \<and> n \<le> 90 then char_of (n + 32) else c)"

definition lower :: "string \<Rightarrow> string" where
  "lower s = map lower_char s"

text \<open>Truth value of an optional string (\<^verbatim>\<open>None\<close> and \<^verbatim>\<open>''\<close> are false).\<close>

fun truthy :: "string option \<Rightarrow> bool" where
  "truthy None = False"
| "truthy (Some s) = (s \<noteq> [])"

text \<open>
  \<^verbatim>\<open>x ** y\<close> on float tensors (\<^verbatim>\<open>tf.pow\<close>): \<open>1\<close> for a zero exponent whatever the
  base, the real power of a positive base, an integer power of a negative base.
  Where the hardware yields inf or NaN (a zero base with a negative exponent, a
  negative base with a fractional exponent) the model has no meaningful value.
\<close>

definition tf_pow :: "real \<Rightarrow> real \<Rightarrow> real" where
  "tf_pow x y =
     (if y = 0 then 1
      else if x < 0 \<and> y = of_int \<lfloor>y\<rfloor> then x powi \<lfloor>y\<rfloor>
      else x powr y)"

subsection \<open>The parameter record\<close>

record params =
  strategy :: string
  batch_size :: int
  num_shards :: int
  learning_rate :: real
  num_examples_per_epoch :: int
  lr_warmup_epoch :: real
  first_lr_drop_epoch :: real
  second_lr_drop_epoch :: real
  num_epochs :: real
  lr_decay_method :: string
  lr_warmup_init :: real
  poly_lr_power :: real
  adjusted_learning_rate :: real
  lr_warmup_step :: int
  first_lr_drop_step :: int
  second_lr_drop_step :: int
  total_steps :: int
  num_classes :: nat
  alpha :: real
  gamma :: real
  label_smoothing :: real
  delta :: real
  box_loss_weight :: real
  iou_loss_weight :: real
  iou_loss_type :: "string option"
  weight_decay :: real
  optimizer :: string
  momentum :: real
  moving_average_decay :: real
  clip_gradients_norm :: "real option"
  ckpt :: "string option"
  backbone_ckpt :: "string option"
  backbone_name :: string
  ckpt_var_scope :: "string option"

subsection \<open>Learning-rate schedule\<close>

definition DEFAULT_BATCH_SIZE :: int where
  "DEFAULT_BATCH_SIZE = 64"

text \<open>
  \<^verbatim>\<open>update_learning_rate_schedule_parameters\<close> mutates the dictionary; the model
  returns the updated record. The arithmetic is Python's, on binary64 floats: an
  integer operand is converted to a float, the division is the true division
  (\<^verbatim>\<open>from __future__ import division\<close>), which rounds the exact quotient of the two
  integers and raises on a zero divisor, and \<^verbatim>\<open>int\<close> truncates the rounded product.
\<close>

definition update_learning_rate_schedule_parameters :: "params \<Rightarrow> error + params" where
  "update_learning_rate_schedule_parameters p =
     (let bs = (if strategy p = ''tpu'' then batch_size p * num_shards p else batch_size p);
          adjusted = fl64 (fl64 (learning_rate p * fl64 (real_of_int bs)) /
                           fl64 (real_of_int DEFAULT_BATCH_SIZE))
      in if bs = 0 then Inl ZeroDivisionError
         else
           let steps_per_epoch = fl64 (real_of_int (num_examples_per_epoch p) / real_of_int bs)
           in Inr (p\<lparr>adjusted_learning_rate := adjusted,
                     lr_warmup_step := py_int (fl64 (lr_warmup_epoch p * steps_per_epoch)),
                     first_lr_drop_step := py_int (fl64 (first_lr_drop_epoch p * steps_per_epoch)),
                     second_lr_drop_step :=
                       py_int (fl64 (second_lr_drop_epoch p * steps_per_epoch)),
                     total_steps := py_int (fl64 (num_epochs p * steps_per_epoch))\<rparr>))"

text \<open>\<^verbatim>\<open>tf.where(c, a, b)\<close> on scalars is a conditional; the loop over the schedule
  table is a left fold.\<close>

definition stepwise_lr_schedule :: "real \<Rightarrow> real \<Rightarrow> int \<Rightarrow> int \<Rightarrow> int \<Rightarrow> int \<Rightarrow> real" where
  "stepwise_lr_schedule adjusted_lr warmup_init warmup_step first_drop second_drop global_step =
     (let linear_warmup =
            warmup_init +
            (real_of_int global_step / real_of_int warmup_step * (adjusted_lr - warmup_init));
          lr0 = (if global_step < warmup_step then linear_warmup else adjusted_lr);
          lr_schedule = [(1.0, warmup_step), (0.1, first_drop), (0.01, second_drop)]
      in foldl (\<lambda>lr (mult, start_global_step).
                  if global_step < start_global_step then lr else adjusted_lr * mult)
           lr0 lr_schedule)"

definition cosine_lr_schedule_tf2 :: "real \<Rightarrow> real \<Rightarrow> int \<Rightarrow> int \<Rightarrow> int \<Rightarrow> real" where
  "cosine_lr_schedule_tf2 adjusted_lr warmup_init warmup_step total_step step =
     (let warmup_lr = (\<lambda>st. warmup_init +
            (adjusted_lr - warmup_init) * (real_of_int st / real_of_int warmup_step));
          cosine_lr = (\<lambda>st.
            let decay_steps = real_of_int (total_step - warmup_step);
                st' = real_of_int (st - warmup_step);
                cosine_decay = 0.5 * (1 + cos (pi * st' / decay_steps));
                alpha = 0;
                decayed = (1 - alpha) * cosine_decay + alpha
            in adjusted_lr * decayed)
      in if step \<le> warmup_step then warmup_lr step else cosine_lr step)"

definition cosine_lr_schedule :: "real \<Rightarrow> real \<Rightarrow> int \<Rightarrow> int \<Rightarrow> int \<Rightarrow> real" where
  "cosine_lr_schedule adjusted_lr warmup_init warmup_step total_step step =
     (let linear_warmup =
            warmup_init +
            (real_of_int step / real_of_int warmup_step * (adjusted_lr - warmup_init));
          cosine_lr = 0.5 * adjusted_lr * (1 + cos (pi * real_of_int step / real_of_int total_step))
      in if step < warmup_step then linear_warmup else cosine_lr)"

definition polynomial_lr_schedule :: "real \<Rightarrow> real \<Rightarrow> int \<Rightarrow> real \<Rightarrow> int \<Rightarrow> int \<Rightarrow> real" where
  "polynomial_lr_schedule adjusted_lr warmup_init warmup_step pw total_step step =
     (let linear_warmup =
            warmup_init +
            (real_of_int step / real_of_int warmup_step * (adjusted_lr - warmup_init));
          polynomial_lr = adjusted_lr * tf_pow (1 - (real_of_int step / real_of_int total_step)) pw
      in if step < warmup_step then linear_warmup else polynomial_lr)"

definition learning_rate_schedule :: "params \<Rightarrow> int \<Rightarrow> error + real" where
  "learning_rate_schedule p global_step =
     (let method = lr_decay_method p
      in if method = ''stepwise'' then
           Inr (stepwise_lr_schedule (adjusted_learning_rate p) (lr_warmup_init p)
                  (lr_warmup_step p) (first_lr_drop_step p) (second_lr_drop_step p) global_step)
         else if method = ''cosine'' then
           Inr (cosine_lr_schedule (adjusted_learning_rate p) (lr_warmup_init p)
                  (lr_warmup_step p) (total_steps p) global_step)
         else if method = ''polynomial'' then
           Inr (polynomial_lr_schedule (adjusted_learning_rate p) (lr_warmup_init p)
                  (lr_warmup_step p) (poly_lr_power p) (total_steps p) global_step)
         else if method = ''constant'' then Inr (adjusted_learning_rate p)
         else Inl (ValueError (''unknown lr_decay_method: '' @ method)))"

subsection \<open>Loss engine\<close>

definition sigmoid :: "real \<Rightarrow> real" where
  "sigmoid x = 1 / (1 + exp (- x))"

text \<open>\<^verbatim>\<open>tf.nn.sigmoid_cross_entropy_with_logits\<close>, in the stable form the library
  documents: \<open>max(x, 0) - x * z + log(1 + exp(-abs(x)))\<close>.\<close>

definition sigmoid_cross_entropy_with_logits :: "real \<Rightarrow> real \<Rightarrow> real" where
  "sigmoid_cross_entropy_with_logits z x = max x 0 - x * z + ln (1 + exp (- \<bar>x\<bar>))"

text \<open>The body of \<^verbatim>\<open>focal_loss\<close> at one tensor element.\<close>

definition focal_loss_elem :: "real \<Rightarrow> real \<Rightarrow> real \<Rightarrow> real \<Rightarrow> real \<Rightarrow> real \<Rightarrow> real" where
  "focal_loss_elem a g normalizer smoothing x y =
     (let pred_prob = sigmoid x;
          p_t = (y * pred_prob) + ((1 - y) * (1 - pred_prob));
          alpha_factor = y * a + (1 - y) * (1 - a);
          modulating_factor = tf_pow (1.0 - p_t) g;
          y' = y * (1.0 - smoothing) + 0.5 * smoothing;
          ce = sigmoid_cross_entropy_with_logits y' x
      in alpha_factor * modulating_factor * ce / normalizer)"

definition focal_loss :: "real list \<Rightarrow> real list \<Rightarrow> real \<Rightarrow> real \<Rightarrow> real \<Rightarrow> real \<Rightarrow> real list" where
  "focal_loss y_pred y_true a g normalizer smoothing =
     map2 (focal_loss_elem a g normalizer smoothing) y_pred y_true"

text \<open>\<^verbatim>\<open>tf.losses.huber_loss\<close> with weights and \<^verbatim>\<open>Reduction.SUM\<close>: the weighted
  elementwise losses, summed.\<close>

definition huber_elem :: "real \<Rightarrow> real \<Rightarrow> real \<Rightarrow> real" where
  "huber_elem d t out =
     (let err = out - t;
          abs_error = \<bar>err\<bar>;
          quadratic = min abs_error d;
          linear = abs_error - quadratic
      in 0.5 * (quadratic * quadratic) + d * linear)"

definition huber_loss :: "real list \<Rightarrow> real list \<Rightarrow> real list \<Rightarrow> real \<Rightarrow> real" where
  "huber_loss targets outputs weights d =
     sum_list (map2 (*) (map2 (huber_elem d) targets outputs) weights)"

definition box_loss :: "real list \<Rightarrow> real list \<Rightarrow> real \<Rightarrow> real \<Rightarrow> real" where
  "box_loss outputs targets num_positives d =
     (let normalizer = num_positives * 4.0;
          mask = map (\<lambda>t. if t \<noteq> 0.0 then 1 else 0) targets;
          bl = huber_loss targets outputs mask d
      in bl / normalizer)"

text \<open>\<^verbatim>\<open>iou_utils.iou_loss\<close> is a collaborator outside this file: a parameter.\<close>

type_synonym iou_fn = "real list \<Rightarrow> real list \<Rightarrow> string \<Rightarrow> real list"

definition box_iou_loss :: "iou_fn \<Rightarrow> real list \<Rightarrow> real list \<Rightarrow> real \<Rightarrow> string \<Rightarrow> real" where
  "box_iou_loss iou_loss outputs targets num_positives loss_type =
     (let normalizer = num_positives * 4.0;
          l = iou_loss outputs targets loss_type
      in sum_list l / normalizer)"

text \<open>\<^verbatim>\<open>tf.add_n\<close> refuses an empty list of tensors.\<close>

definition add_n :: "real list \<Rightarrow> error + real" where
  "add_n xs =
     (if xs = [] then
        Inl (ValueError
          ''inputs must be a list of at least one Tensor/IndexedSlices with the same dtype and shape'')
      else Inr (sum_list xs))"

text \<open>\<^verbatim>\<open>tf.one_hot\<close> of one index: all zeros for an index outside \<open>0..<depth\<close>.\<close>

definition one_hot :: "int \<Rightarrow> nat \<Rightarrow> real list" where
  "one_hot i depth = map (\<lambda>c. if i = int c then 1 else 0) [0..<depth]"

record labels =
  mean_num_positives :: "real list"
  cls_targets_at :: "int \<Rightarrow> int list option"
  box_targets_at :: "int \<Rightarrow> real list option"

definition num_positives_sum :: "labels \<Rightarrow> real" where
  "num_positives_sum lbls = sum_list (mean_num_positives lbls) + 1.0"

text \<open>
  The classification loss of one level, after the ignore mask. The class targets
  are one-hot encoded and laid out like the logits; both reshapes of the source
  (for either data format) keep the row-major element order, so on flattened
  tensors they are the identity. The mask \<open>targets \<noteq> -2\<close> is broadcast over the
  class axis.
\<close>

definition cls_loss_at_level :: "params \<Rightarrow> real \<Rightarrow> real list \<Rightarrow> int list \<Rightarrow> real" where
  "cls_loss_at_level p nps cls_out targets =
     (let cls_targets_at_level = concat (map (\<lambda>t. one_hot t (num_classes p)) targets);
          cls_loss = focal_loss cls_out cls_targets_at_level (alpha p) (gamma p) nps
                       (label_smoothing p);
          mask = concat (map (\<lambda>t. replicate (num_classes p) (if t \<noteq> - 2 then 1 else 0)) targets)
      in sum_list (map2 (*) cls_loss mask))"

text \<open>One iteration of the loop over the levels: the class loss, and the box and
  IoU losses that are appended (a list of no or one element each).\<close>

definition level_losses ::
  "iou_fn \<Rightarrow> params \<Rightarrow> labels \<Rightarrow> (int \<times> real list) list \<Rightarrow> real \<Rightarrow>
   int \<times> real list \<Rightarrow> error + (real \<times> real list \<times> real list)" where
  "level_losses iou_loss p lbls box_outputs nps lv =
     (case cls_targets_at lbls (fst lv) of
        None \<Rightarrow> Inl (KeyError ''cls_targets_%d'' (fst lv))
      | Some targets \<Rightarrow>
     (case box_targets_at lbls (fst lv) of
        None \<Rightarrow> Inl (KeyError ''box_targets_%d'' (fst lv))
      | Some box_targets_at_level \<Rightarrow>
     (let c = cls_loss_at_level p nps (snd lv) targets
      in if box_loss_weight p = 0 \<and> \<not> truthy (iou_loss_type p) then Inr (c, [], [])
         else
           (case map_of box_outputs (fst lv) of
              None \<Rightarrow> Inl (KeyError ''box_outputs'' (fst lv))
            | Some box_out \<Rightarrow>
                Inr (c,
                     if box_loss_weight p \<noteq> 0
                     then [box_loss box_out box_targets_at_level nps (delta p)] else [],
                     case iou_loss_type p of
                       None \<Rightarrow> []
                     | Some ty \<Rightarrow>
                         if ty \<noteq> []
                         then [box_iou_loss iou_loss box_out box_targets_at_level nps ty]
                         else [])))))"

fun detection_levels ::
  "iou_fn \<Rightarrow> params \<Rightarrow> labels \<Rightarrow> (int \<times> real list) list \<Rightarrow> real \<Rightarrow>
   (int \<times> real list) list \<Rightarrow> error + (real list \<times> real list \<times> real list)" where
  "detection_levels iou_loss p lbls box_outputs nps [] = Inr ([], [], [])"
| "detection_levels iou_loss p lbls box_outputs nps (lv # rest) =
     (case level_losses iou_loss p lbls box_outputs nps lv of
        Inl e \<Rightarrow> Inl e
      | Inr (c, b, i) \<Rightarrow>
          (case detection_levels iou_loss p lbls box_outputs nps rest of
             Inl e \<Rightarrow> Inl e
           | Inr (cs, bs, is) \<Rightarrow> Inr (c # cs, b @ bs, i @ is)))"

text \<open>\<^verbatim>\<open>detection_loss\<close>: \<open>(total_loss, cls_loss, box_loss, box_iou_loss)\<close>. The level
  dictionaries are association lists in level order.\<close>

definition detection_loss ::
  "iou_fn \<Rightarrow> (int \<times> real list) list \<Rightarrow> (int \<times> real list) list \<Rightarrow> labels \<Rightarrow> params \<Rightarrow>
   error + (real \<times> real \<times> real \<times> real)" where
  "detection_loss iou_loss cls_outputs box_outputs lbls p =
     (let nps = num_positives_sum lbls
      in case detection_levels iou_loss p lbls box_outputs nps cls_outputs of
           Inl e \<Rightarrow> Inl e
         | Inr (cls_losses, box_losses, box_iou_losses) \<Rightarrow>
             (case add_n cls_losses of
                Inl e \<Rightarrow> Inl e
              | Inr cls_total \<Rightarrow>
                  (let box_total = (if box_losses \<noteq> [] then sum_list box_losses else 0);
                       iou_total = (if box_iou_losses \<noteq> [] then sum_list box_iou_losses else 0);
                       total_loss = cls_total + box_loss_weight p * box_total
                                      + iou_loss_weight p * iou_total
                   in Inr (total_loss, cls_total, box_total, iou_total))))"

text \<open>The quantities of the focal loss as the specification words them, each a
  function of the unsmoothed target \<open>y\<close>.\<close>

definition spec_p_t :: "real \<Rightarrow> real \<Rightarrow> real" where
  "spec_p_t y x = y * sigmoid x + (1 - y) * (1 - sigmoid x)"

definition spec_alpha_factor :: "real \<Rightarrow> real \<Rightarrow> real" where
  "spec_alpha_factor y a = y * a + (1 - y) * (1 - a)"

definition spec_modulating_factor :: "real \<Rightarrow> real \<Rightarrow> real \<Rightarrow> real" where
  "spec_modulating_factor y x g = tf_pow (1 - spec_p_t y x) g"

definition spec_smoothed_target :: "real \<Rightarrow> real \<Rightarrow> real" where
  "spec_smoothed_target y s = y * (1 - s) + 0.5 * s"

subsection \<open>Regularisation\<close>

text \<open>A trainable variable: its name and its flattened value. The list of trainable
  variables, a global registry in the source, is an argument.\<close>

record variable =
  var_name :: string
  var_value :: "real list"

text \<open>
  \<^verbatim>\<open>re.match\<close> of the default pattern \<^verbatim>\<open>.*(kernel|weight):0$\<close>: the name, less one
  trailing newline if it has one, ends with \<^verbatim>\<open>kernel:0\<close> or \<^verbatim>\<open>weight:0\<close>, and no
  newline comes before that suffix. No caller passes another pattern.
\<close>

definition var_match :: "string \<Rightarrow> bool" where
  "var_match nm =
     (let body = (if nm \<noteq> [] \<and> last nm = CHR 0x0A then butlast nm else nm);
          k = length body - 8
      in 8 \<le> length body \<and>
         (drop k body = ''kernel:0'' \<or> drop k body = ''weight:0'') \<and>
         CHR 0x0A \<notin> set (take k body))"

text \<open>\<^verbatim>\<open>tf.nn.l2_loss\<close>: half the sum of the squares.\<close>

definition l2_loss :: "real list \<Rightarrow> real" where
  "l2_loss v = sum_list (map (\<lambda>x. x * x) v) / 2"

definition reg_l2_loss :: "real \<Rightarrow> variable list \<Rightarrow> error + real" where
  "reg_l2_loss wd trainable_variables =
     (case add_n (map (\<lambda>v. l2_loss (var_value v))
                   (filter (\<lambda>v. var_match (var_name v)) trainable_variables)) of
        Inl e \<Rightarrow> Inl e
      | Inr s \<Rightarrow> Inr (wd * s))"

subsection \<open>Training orchestrator\<close>

datatype mode = TRAIN | EVAL | PREDICT

text \<open>The graph constructions of \<^verbatim>\<open>_model_fn\<close>, recorded in the order in which the
  function starts them.\<close>

datatype event = ForwardPass | LossGraph | GradientBuild | Postprocess

datatype optimizer_kind = MomentumOptimizer real real | AdamOptimizer real

datatype scaffold =
    NoScaffold
  | RestoreCheckpoint string string string
  | RestoreEma

record train_op =
  opt :: optimizer_kind
  distributed :: string
  clip_norm :: "real option"
  ema_applied :: bool

datatype estimator_spec =
    Predictions "(int \<times> real list) list" "(int \<times> real list) list"
  | TPUEstimatorSpec mode real "train_op option" bool scaffold

text \<open>Lines 390 to 396: the optimizer for the learning rate.\<close>

definition select_optimizer :: "params \<Rightarrow> real \<Rightarrow> error + optimizer_kind" where
  "select_optimizer p lr =
     (if lower (optimizer p) = ''sgd'' then Inr (MomentumOptimizer lr (momentum p))
      else if lower (optimizer p) = ''adam'' then Inr (AdamOptimizer lr)
      else Inl (ValueError ''optimizers should be adam or sgd''))"

text \<open>Lines 389 to 433: the train op. The gradients are built by
  \<^verbatim>\<open>compute_gradients\<close> or by \<^verbatim>\<open>minimize\<close>, after the optimizer is chosen.\<close>

definition train_stage ::
  "mode \<Rightarrow> params \<Rightarrow> real \<Rightarrow> event list \<Rightarrow> event list \<times> (error + train_op option)" where
  "train_stage md p lr tr =
     (if md = TRAIN then
        (case select_optimizer p lr of
           Inl e \<Rightarrow> (tr, Inl e)
         | Inr ok \<Rightarrow>
             (tr @ [GradientBuild],
              Inr (Some \<lparr>opt = ok,
                         distributed = (if strategy p = ''tpu'' then ''tpu''
                                        else if strategy p = ''horovod'' then ''horovod''
                                        else []),
                         clip_norm = (case clip_gradients_norm p of
                                        None \<Rightarrow> None
                                      | Some c \<Rightarrow> if 0 < c then Some c else None),
                         ema_applied = (moving_average_decay p \<noteq> 0)\<rparr>)))
      else (tr, Inr None))"

text \<open>Lines 488 to 529: the scaffold. \<^verbatim>\<open>a or b\<close> is \<open>a\<close> when \<open>a\<close> is true, else \<open>b\<close>.\<close>

definition select_scaffold :: "mode \<Rightarrow> params \<Rightarrow> error + scaffold" where
  "select_scaffold md p =
     (let checkpoint = (if truthy (ckpt p) then ckpt p else backbone_ckpt p)
      in case checkpoint of
           Some path \<Rightarrow>
             if path \<noteq> [] \<and> md = TRAIN then
               (if truthy (ckpt p) \<and> truthy (backbone_ckpt p) then
                  Inl (RuntimeError ''--backbone_ckpt and --checkpoint are mutually exclusive'')
                else if truthy (backbone_ckpt p) then
                  Inr (RestoreCheckpoint path
                         (case ckpt_var_scope p of
                            None \<Rightarrow> backbone_name p @ ''/''
                          | Some sc \<Rightarrow> sc @ ''/'')
                         (backbone_name p @ ''/''))
                else Inr (RestoreCheckpoint path ''/'' ''/''))
             else if md = EVAL \<and> moving_average_decay p \<noteq> 0 then Inr RestoreEma
             else Inr NoScaffold
         | None \<Rightarrow>
             if md = EVAL \<and> moving_average_decay p \<noteq> 0 then Inr RestoreEma
             else Inr NoScaffold)"

text \<open>
  \<^verbatim>\<open>_model_fn\<close>. The collaborators are arguments: the IoU loss, the number of
  Horovod workers, the trainable variables, the global step and the outputs of the
  architecture on the features. The result is the trace of graph constructions
  started, and the estimator spec or the exception raised. Summaries, hooks and the
  host call do not change the control flow and are left out.
\<close>

definition model_fn ::
  "iou_fn \<Rightarrow> nat \<Rightarrow> variable list \<Rightarrow> int \<Rightarrow>
   (int \<times> real list) list \<times> (int \<times> real list) list \<Rightarrow> labels \<Rightarrow> mode \<Rightarrow> params \<Rightarrow>
   event list \<times> (error + estimator_spec)" where
  "model_fn iou_loss hvd_size trainable_variables global_step model_out lbls md p0 =
     (let cls_outputs = fst model_out;
          box_outputs = snd model_out;
          tr1 = [ForwardPass]
      in if md = PREDICT then (tr1, Inr (Predictions cls_outputs box_outputs))
         else
           (case update_learning_rate_schedule_parameters p0 of
              Inl e \<Rightarrow> (tr1, Inl e)
            | Inr p \<Rightarrow>
           (case learning_rate_schedule p global_step of
              Inl e \<Rightarrow> (tr1, Inl e)
            | Inr lr0 \<Rightarrow>
           (case detection_loss iou_loss cls_outputs box_outputs lbls p of
              Inl e \<Rightarrow> (tr1 @ [LossGraph], Inl e)
            | Inr losses \<Rightarrow>
           (case reg_l2_loss (weight_decay p) trainable_variables of
              Inl e \<Rightarrow> (tr1 @ [LossGraph], Inl e)
            | Inr reg_l2loss \<Rightarrow>
           (let total_loss = fst losses + reg_l2loss;
                lr = (if strategy p = ''horovod'' then lr0 * real hvd_size else lr0);
                staged = train_stage md p lr (tr1 @ [LossGraph])
            in case snd staged of
                 Inl e \<Rightarrow> (fst staged, Inl e)
               | Inr train \<Rightarrow>
                   (let tr = (if md = EVAL then fst staged @ [Postprocess] else fst staged)
                    in case select_scaffold md p of
                         Inl e \<Rightarrow> (tr, Inl e)
                       | Inr sc \<Rightarrow>
                           (tr, Inr (TPUEstimatorSpec md total_loss train (md = EVAL) sc)))))))))"

datatype model_fn_name = Retinanet_model_fn | Efficientdet_model_fn

definition get_model_fn :: "string \<Rightarrow> error + model_fn_name" where
  "get_model_fn model_name =
     (if py_in ''retinanet'' model_name then Inr Retinanet_model_fn
      else if py_in ''efficientdet'' model_name then Inr Efficientdet_model_fn
      else Inl (ValueError (''Invalide model name '' @ model_name)))"

subsection \<open>Auxiliary notions of the statements\<close>

text \<open>Every level has class targets, and each of them is the ignore sentinel.\<close>

definition all_ignored :: "labels \<Rightarrow> (int \<times> real list) list \<Rightarrow> bool" where
  "all_ignored lbls cls_outputs =
     list_all (\<lambda>lv. case cls_targets_at lbls (fst lv) of
                       None \<Rightarrow> False
                     | Some ts \<Rightarrow> list_all (\<lambda>t. t = - 2) ts) cls_outputs"

text \<open>Every level has box targets, and box outputs where a box loss reads them.\<close>

definition boxes_present ::
  "params \<Rightarrow> labels \<Rightarrow> (int \<times> real list) list \<Rightarrow> (int \<times> real list) list \<Rightarrow> bool" where
  "boxes_present p lbls box_outputs cls_outputs =
     list_all (\<lambda>lv. box_targets_at lbls (fst lv) \<noteq> None \<and>
                     ((box_loss_weight p = 0 \<and> \<not> truthy (iou_loss_type p)) \<or>
                      map_of box_outputs (fst lv) \<noteq> None)) cls_outputs"

text \<open>Every level has class targets.\<close>

definition cls_targets_present :: "labels \<Rightarrow> (int \<times> real list) list \<Rightarrow> bool" where
  "cls_targets_present lbls cls_outputs =
     list_all (\<lambda>lv. cls_targets_at lbls (fst lv) \<noteq> None) cls_outputs"

text \<open>
  The losses of one level before normalisation: the focal loss at normalizer 1, masked
  by the ignore sentinel and summed; the Huber loss masked to the non-zero targets and
  summed; the sum of the IoU losses.
\<close>

definition level_cls_sum :: "params \<Rightarrow> labels \<Rightarrow> int \<times> real list \<Rightarrow> real" where
  "level_cls_sum p lbls lv =
     (case cls_targets_at lbls (fst lv) of
        None \<Rightarrow> 0
      | Some ts \<Rightarrow>
          sum_list
            (map2 (*)
               (focal_loss (snd lv) (concat (map (\<lambda>t. one_hot t (num_classes p)) ts))
                  (alpha p) (gamma p) 1 (label_smoothing p))
               (concat (map (\<lambda>t. replicate (num_classes p) (if t \<noteq> - 2 then 1 else 0)) ts))))"

definition level_huber_sum ::
  "params \<Rightarrow> labels \<Rightarrow> (int \<times> real list) list \<Rightarrow> int \<times> real list \<Rightarrow> real" where
  "level_huber_sum p lbls box_outputs lv =
     (case box_targets_at lbls (fst lv) of
        None \<Rightarrow> 0
      | Some bt \<Rightarrow>
          (case map_of box_outputs (fst lv) of
             None \<Rightarrow> 0
           | Some box_out \<Rightarrow>
               huber_loss bt box_out (map (\<lambda>t. if t \<noteq> 0 then 1 else 0) bt) (delta p)))"

definition level_iou_sum ::
  "iou_fn \<Rightarrow> labels \<Rightarrow> (int \<times> real list) list \<Rightarrow> string \<Rightarrow> int \<times> real list \<Rightarrow> real" where
  "level_iou_sum iou_loss lbls box_outputs ty lv =
     (case box_targets_at lbls (fst lv) of
        None \<Rightarrow> 0
      | Some bt \<Rightarrow>
          (case map_of box_outputs (fst lv) of
             None \<Rightarrow> 0
           | Some box_out \<Rightarrow> sum_list (iou_loss box_out bt ty)))"

text \<open>The box and IoU losses that are collected: none when the loss is switched off.\<close>

definition box_list :: "params \<Rightarrow> real list \<Rightarrow> real list" where
  "box_list p xs = (if box_loss_weight p \<noteq> 0 then xs else [])"

definition iou_list :: "params \<Rightarrow> (string \<Rightarrow> real list) \<Rightarrow> real list" where
  "iou_list p f = (case iou_loss_type p of None \<Rightarrow> [] | Some ty \<Rightarrow> if ty \<noteq> [] then f ty else [])"

text \<open>A parameter record and a label bundle for the concrete instances below: one
  level (3), two anchors, two classes.\<close>

definition example_params :: params where
  "example_params =
     \<lparr>strategy = ''gpu'', batch_size = 64, num_shards = 8, learning_rate = 0.08,
      num_examples_per_epoch = 100, lr_warmup_epoch = 1, first_lr_drop_epoch = 2,
      second_lr_drop_epoch = 3, num_epochs = 4, lr_decay_method = ''cosine'',
      lr_warmup_init = 0, poly_lr_power = 2, adjusted_learning_rate = 1,
      lr_warmup_step = 1, first_lr_drop_step = 2, second_lr_drop_step = 3, total_steps = 2,
      num_classes = 2, alpha = 0.25, gamma = 0, label_smoothing = 0, delta = 0.1,
      box_loss_weight = 50, iou_loss_weight = 1, iou_loss_type = None, weight_decay = 0.5,
      optimizer = ''sgd'', momentum = 0.9, moving_average_decay = 0,
      clip_gradients_norm = None, ckpt = None, backbone_ckpt = None,
      backbone_name = ''efficientnet-b0'', ckpt_var_scope = None\<rparr>"

definition example_labels :: labels where
  "example_labels =
     \<lparr>mean_num_positives = [2, 3],
      cls_targets_at = (\<lambda>l. if l = 3 then Some [- 2, - 2] else None),
      box_targets_at = (\<lambda>l. if l = 3 then Some [0, 0, 0, 0, 0, 0, 0, 0] else None)\<rparr>"

text \<open>A label bundle with a positive anchor (class 0) and a non-zero box target, and
  outputs for it.\<close>

definition positive_labels :: labels where
  "positive_labels =
     \<lparr>mean_num_positives = [2, 3],
      cls_targets_at = (\<lambda>l. if l = 3 then Some [0, - 2] else None),
      box_targets_at = (\<lambda>l. if l = 3 then Some [2, 0, 0, 0, 0, 0, 0, 0] else None)\<rparr>"

definition positive_outputs :: "(int \<times> real list) list \<times> (int \<times> real list) list" where
  "positive_outputs = ([(3, [0, 0, 0, 0])], [(3, [1, 0, 0, 0, 0, 0, 0, 0])])"

text \<open>A parameter record whose schedule fields are those of a COCO run: 118287 examples
  per epoch, 4 shards of 25 examples, 300 epochs.\<close>

definition coco_params :: params where
  "coco_params =
     example_params\<lparr>strategy := ''tpu'', batch_size := 25, num_shards := 4,
       learning_rate := 1 / 8, num_examples_per_epoch := 118287, lr_warmup_epoch := 1,
       first_lr_drop_epoch := 200, second_lr_drop_epoch := 250, num_epochs := 300\<rparr>"

text \<open>The outputs of the architecture and the trainable variables of the concrete
  instances.\<close>

definition example_outputs :: "(int \<times> real list) list \<times> (int \<times> real list) list" where
  "example_outputs = ([(3, [0.5, - 1, 2, 0])], [(3, [1, 2, 3, 4, 5, 6, 7, 8])])"

definition example_variables :: "variable list" where
  "example_variables = [\<lparr>var_name = ''conv/kernel:0'', var_value = [1]\<rparr>]"

section \<open>Verified properties\<close>

subsection \<open>Focal loss\<close>

lemma tf_pow_zero_exponent: "tf_pow x 0 = 1"
  by (simp add: tf_pow_def)

text \<open>
  Claim C1. \<open>focal_loss\<close> is, elementwise,
  \<open>alpha_factor * modulating_factor * sigmoid_cross_entropy(target', logit) / normalizer\<close>,
  where \<open>p_t\<close>, \<open>alpha_factor\<close> and \<open>modulating_factor\<close> are computed from the
  unsmoothed target and only the cross entropy sees the smoothed target
  \<open>target' = target * (1 - smoothing) + 0.5 * smoothing\<close>. With \<open>gamma = 0\<close>,
  \<open>alpha = 0.5\<close> and no smoothing it is \<open>0.5 * cross_entropy / normalizer\<close>.
\<close>

theorem focal_loss_formula:
  "focal_loss y_pred y_true a g n s =
     map2 (\<lambda>x y. spec_alpha_factor y a * spec_modulating_factor y x g *
                   sigmoid_cross_entropy_with_logits (spec_smoothed_target y s) x / n)
       y_pred y_true
   \<and> focal_loss y_pred y_true 0.5 0 n 0 =
     map2 (\<lambda>x y. 0.5 * sigmoid_cross_entropy_with_logits y x / n) y_pred y_true"
proof
  show "focal_loss y_pred y_true a g n s =
     map2 (\<lambda>x y. spec_alpha_factor y a * spec_modulating_factor y x g *
                   sigmoid_cross_entropy_with_logits (spec_smoothed_target y s) x / n)
       y_pred y_true"
    by (simp add: focal_loss_def focal_loss_elem_def Let_def spec_alpha_factor_def
        spec_modulating_factor_def spec_p_t_def spec_smoothed_target_def)
next
  have af: "y * 0.5 + (1 - y) * (1 - 0.5) = (0.5::real)" for y
    by argo
  have "focal_loss_elem 0.5 0 n 0 x y = 0.5 * sigmoid_cross_entropy_with_logits y x / n" for x y
    unfolding focal_loss_elem_def Let_def tf_pow_zero_exponent af by simp
  then have "focal_loss_elem 0.5 0 n 0 = (\<lambda>x y. 0.5 * sigmoid_cross_entropy_with_logits y x / n)"
    by (intro ext)
  then show "focal_loss y_pred y_true 0.5 0 n 0 =
     map2 (\<lambda>x y. 0.5 * sigmoid_cross_entropy_with_logits y x / n) y_pred y_true"
    by (simp add: focal_loss_def)
qed

subsection \<open>Stepwise schedule\<close>

lemma stepwise_unfold:
  "stepwise_lr_schedule adj init w f s step =
     (let l0 = (if step < w then init + (real_of_int step / real_of_int w * (adj - init)) else adj);
          l1 = (if step < w then l0 else adj * 1.0);
          l2 = (if step < f then l1 else adj * 0.1)
      in if step < s then l2 else adj * 0.01)"
  by (simp add: stepwise_lr_schedule_def Let_def)

text \<open>
  Claim C2. With \<open>0 < lr_warmup_step \<le> first_lr_drop_step \<le> second_lr_drop_step\<close>, the
  stepwise schedule is the linear warmup
  \<open>lr_warmup_init + (step / lr_warmup_step) * (adjusted_lr - lr_warmup_init)\<close> before the
  warmup step, and from then on \<open>adjusted_lr\<close> times the multiplier of the last
  threshold reached (1.0, 0.1, 0.01). For \<open>adjusted_lr = 0.08\<close>, \<open>lr_warmup_init = 0\<close> and
  thresholds 500, 15000, 20000 the rate is 0, 0.08, 0.008 and 0.0008 at steps 0, 500,
  15000 and 20000.
\<close>

theorem stepwise_lr_schedule_piecewise:
  assumes "0 < w" and "w \<le> f" and "f \<le> s"
  shows "(step < w \<longrightarrow>
            stepwise_lr_schedule adj init w f s step =
              init + (real_of_int step / real_of_int w) * (adj - init))
       \<and> (w \<le> step \<longrightarrow>
            stepwise_lr_schedule adj init w f s step =
              adj * (if s \<le> step then 0.01 else if f \<le> step then 0.1 else 1.0))
       \<and> stepwise_lr_schedule 0.08 0 500 15000 20000 0 = 0
       \<and> stepwise_lr_schedule 0.08 0 500 15000 20000 500 = 0.08
       \<and> stepwise_lr_schedule 0.08 0 500 15000 20000 15000 = 0.008
       \<and> stepwise_lr_schedule 0.08 0 500 15000 20000 20000 = 0.0008"
  using assms by (auto simp add: stepwise_unfold Let_def)

theorem stepwise_lr_schedule_piecewise_witness:
  "stepwise_lr_schedule 1 0 10 20 30 5 = 0.5
   \<and> stepwise_lr_schedule 1 0 10 20 30 25 = 0.1"
  using stepwise_lr_schedule_piecewise [of 10 20 30 5 1 0]
        stepwise_lr_schedule_piecewise [of 10 20 30 25 1 0]
  by simp

subsection \<open>Normalisation of the detection loss\<close>

lemma sum_list_scale: "sum_list (map (\<lambda>x. f x / n) xs) = sum_list (map f xs) / (n::real)"
  by (induction xs) (simp_all add: add_divide_distrib)

lemma sum_list_map2_scale:
  "sum_list (map2 (*) (map (\<lambda>z. h z / n) zs) ms) = sum_list (map2 (*) (map h zs) ms) / (n::real)"
proof (induction zs arbitrary: ms)
  case Nil
  then show ?case by simp
next
  case (Cons z zs)
  then show ?case by (cases ms) (simp_all add: add_divide_distrib)
qed

lemma focal_loss_elem_scale:
  "focal_loss_elem a g n s x y = focal_loss_elem a g 1 s x y / n"
  by (simp add: focal_loss_elem_def Let_def)

lemma focal_loss_masked_scale:
  "sum_list (map2 (*) (focal_loss co ys a g n s) ms) =
   sum_list (map2 (*) (focal_loss co ys a g 1 s) ms) / n"
proof -
  let ?h = "\<lambda>z. case z of (x, y) \<Rightarrow> focal_loss_elem a g 1 s x y"
  have "focal_loss co ys a g n s = map (\<lambda>z. ?h z / n) (zip co ys)"
    unfolding focal_loss_def
    by (rule map_cong) (auto simp: focal_loss_elem_scale [of _ _ n])
  moreover have "focal_loss co ys a g 1 s = map ?h (zip co ys)"
    unfolding focal_loss_def by simp
  ultimately show ?thesis
    by (simp only: sum_list_map2_scale)
qed

lemma cls_loss_at_level_sum:
  assumes "cls_targets_at lbls (fst lv) = Some ts"
  shows "cls_loss_at_level p n (snd lv) ts = level_cls_sum p lbls lv / n"
  unfolding cls_loss_at_level_def level_cls_sum_def Let_def assms option.case
  by (rule focal_loss_masked_scale)

lemma box_loss_sum:
  assumes "box_targets_at lbls (fst lv) = Some bt" and "map_of bo (fst lv) = Some b"
  shows "box_loss b bt n (delta p) = level_huber_sum p lbls bo lv / (n * 4)"
  by (simp add: box_loss_def level_huber_sum_def assms Let_def)

lemma box_iou_loss_sum:
  assumes "box_targets_at lbls (fst lv) = Some bt" and "map_of bo (fst lv) = Some b"
  shows "box_iou_loss iou b bt n ty = level_iou_sum iou lbls bo ty lv / (n * 4)"
  by (simp add: box_iou_loss_def level_iou_sum_def assms Let_def)

lemma level_losses_present:
  assumes "cls_targets_at lbls (fst lv) \<noteq> None"
    and "box_targets_at lbls (fst lv) \<noteq> None"
    and "(box_loss_weight p = 0 \<and> \<not> truthy (iou_loss_type p)) \<or> map_of bo (fst lv) \<noteq> None"
  shows "level_losses iou p lbls bo n lv =
     Inr (level_cls_sum p lbls lv / n,
          box_list p [level_huber_sum p lbls bo lv / (n * 4)],
          iou_list p (\<lambda>ty. [level_iou_sum iou lbls bo ty lv / (n * 4)]))"
proof -
  obtain ts where ts: "cls_targets_at lbls (fst lv) = Some ts"
    using assms(1) by blast
  obtain bt where bt: "box_targets_at lbls (fst lv) = Some bt"
    using assms(2) by blast
  show ?thesis
  proof (cases "box_loss_weight p = 0 \<and> \<not> truthy (iou_loss_type p)")
    case True
    then show ?thesis
      by (cases "iou_loss_type p")
        (simp_all add: level_losses_def ts bt cls_loss_at_level_sum [OF ts] box_list_def
          iou_list_def Let_def)
  next
    case False
    then obtain b where b: "map_of bo (fst lv) = Some b"
      using assms(3) by blast
    show ?thesis
      using False
      by (cases "iou_loss_type p")
        (simp_all add: level_losses_def ts bt b cls_loss_at_level_sum [OF ts]
          box_loss_sum [OF bt b] box_iou_loss_sum [OF bt b] box_list_def iou_list_def Let_def)
  qed
qed

lemma detection_levels_present:
  assumes "cls_targets_present lbls lvs" and "boxes_present p lbls bo lvs"
  shows "detection_levels iou p lbls bo n lvs =
     Inr (map (\<lambda>lv. level_cls_sum p lbls lv / n) lvs,
          box_list p (map (\<lambda>lv. level_huber_sum p lbls bo lv / (n * 4)) lvs),
          iou_list p (\<lambda>ty. map (\<lambda>lv. level_iou_sum iou lbls bo ty lv / (n * 4)) lvs))"
  using assms
proof (induction lvs)
  case Nil
  show ?case by (simp add: box_list_def iou_list_def split: option.splits)
next
  case (Cons lv lvs)
  have l: "level_losses iou p lbls bo n lv =
     Inr (level_cls_sum p lbls lv / n,
          box_list p [level_huber_sum p lbls bo lv / (n * 4)],
          iou_list p (\<lambda>ty. [level_iou_sum iou lbls bo ty lv / (n * 4)]))"
    using Cons.prems
    by (intro level_losses_present) (simp_all add: cls_targets_present_def boxes_present_def)
  have r: "detection_levels iou p lbls bo n lvs =
     Inr (map (\<lambda>lv. level_cls_sum p lbls lv / n) lvs,
          box_list p (map (\<lambda>lv. level_huber_sum p lbls bo lv / (n * 4)) lvs),
          iou_list p (\<lambda>ty. map (\<lambda>lv. level_iou_sum iou lbls bo ty lv / (n * 4)) lvs))"
    using Cons by (simp add: cls_targets_present_def boxes_present_def)
  show ?case
    by (simp add: l r box_list_def iou_list_def split: option.splits)
qed

lemma num_positives_sum_ge_1:
  assumes "\<forall>x\<in>set (mean_num_positives lbls). 0 \<le> x"
  shows "1 \<le> num_positives_sum lbls"
proof -
  have "0 \<le> sum_list (mean_num_positives lbls)"
    using assms by (intro sum_list_nonneg) simp
  then show ?thesis by (simp add: num_positives_sum_def)
qed

lemma detection_loss_present:
  assumes "co \<noteq> []" and "cls_targets_present lbls co" and "boxes_present p lbls bo co"
  shows "detection_loss iou co bo lbls p =
     (let n = sum_list (mean_num_positives lbls) + 1;
          c = sum_list (map (level_cls_sum p lbls) co) / n;
          b = (if box_loss_weight p \<noteq> 0
               then sum_list (map (level_huber_sum p lbls bo) co) / (n * 4) else 0);
          i = (case iou_loss_type p of
                 None \<Rightarrow> 0
               | Some ty \<Rightarrow>
                   if ty \<noteq> [] then sum_list (map (level_iou_sum iou lbls bo ty) co) / (n * 4)
                   else 0)
      in Inr (c + box_loss_weight p * b + iou_loss_weight p * i, c, b, i))"
  using assms(1)
  by (cases "iou_loss_type p")
    (simp_all add: detection_loss_def detection_levels_present [OF assms(2,3)] Let_def
      add_n_def num_positives_sum_def box_list_def iou_list_def sum_list_scale)

text \<open>
  Claim C3. \<open>num_positives_sum\<close> is \<open>sum(mean_num_positives) + 1.0\<close>. When no entry of
  \<open>mean_num_positives\<close> is negative it is at least 1, so neither it nor the box normalizer
  \<open>num_positives_sum * 4\<close> is zero. It is the normalizer of the three losses: when the
  level set is not empty and the labels and outputs every level reads are there,
  \<open>detection_loss\<close> returns the summed focal losses divided by it, the summed Huber
  losses divided by four times it, and the summed IoU losses divided by four times it.
\<close>

theorem detection_loss_normalizer:
  assumes "\<forall>x\<in>set (mean_num_positives lbls). 0 \<le> x"
  shows "num_positives_sum lbls = sum_list (mean_num_positives lbls) + 1
       \<and> 1 \<le> num_positives_sum lbls
       \<and> num_positives_sum lbls \<noteq> 0
       \<and> num_positives_sum lbls * 4.0 \<noteq> 0
       \<and> (co \<noteq> [] \<and> cls_targets_present lbls co \<and> boxes_present p lbls bo co \<longrightarrow>
            detection_loss iou co bo lbls p =
              (let n = sum_list (mean_num_positives lbls) + 1;
                   c = sum_list (map (level_cls_sum p lbls) co) / n;
                   b = (if box_loss_weight p \<noteq> 0
                        then sum_list (map (level_huber_sum p lbls bo) co) / (n * 4) else 0);
                   i = (case iou_loss_type p of
                          None \<Rightarrow> 0
                        | Some ty \<Rightarrow>
                            if ty \<noteq> []
                            then sum_list (map (level_iou_sum iou lbls bo ty) co) / (n * 4)
                            else 0)
               in Inr (c + box_loss_weight p * b + iou_loss_weight p * i, c, b, i)))"
proof -
  have "num_positives_sum lbls = sum_list (mean_num_positives lbls) + 1"
    by (simp add: num_positives_sum_def)
  moreover have "1 \<le> num_positives_sum lbls"
    by (rule num_positives_sum_ge_1 [OF assms])
  ultimately show ?thesis
    using detection_loss_present [of co lbls p bo iou] by simp
qed

theorem detection_loss_normalizer_witness:
  "num_positives_sum positive_labels = 6
   \<and> detection_loss (\<lambda>outs targets ty. []) (fst positive_outputs) (snd positive_outputs)
       positive_labels example_params =
     Inr (ln 2 / 6 + 50 * (19 / 4800), ln 2 / 6, 19 / 4800, 0)"
proof -
  have u: "[0..<2] = [0, Suc 0]"
    by (simp add: upt_rec)
  have r: "replicate 2 x = [x, x]" for x :: real
    by (simp add: numeral_2_eq_2)
  have cs: "level_cls_sum example_params positive_labels (3, [0, 0, 0, 0]) = ln 2"
    by (simp add: level_cls_sum_def positive_labels_def example_params_def focal_loss_def
        focal_loss_elem_def one_hot_def sigmoid_def sigmoid_cross_entropy_with_logits_def
        tf_pow_def Let_def u r)
  have hs: "level_huber_sum example_params positive_labels [(3, [1, 0, 0, 0, 0, 0, 0, 0])]
     (3, [0, 0, 0, 0]) = 19 / 200"
    by (simp add: level_huber_sum_def positive_labels_def example_params_def huber_loss_def
        huber_elem_def Let_def)
  have h: "\<forall>x\<in>set (mean_num_positives positive_labels). 0 \<le> x"
    by (simp add: positive_labels_def)
  have c: "cls_targets_present positive_labels (fst positive_outputs)"
    by (simp add: cls_targets_present_def positive_labels_def positive_outputs_def)
  have b: "boxes_present example_params positive_labels (snd positive_outputs)
      (fst positive_outputs)"
    by (simp add: boxes_present_def positive_labels_def positive_outputs_def)
  have n: "fst positive_outputs \<noteq> []"
    by (simp add: positive_outputs_def)
  have m: "sum_list (mean_num_positives positive_labels) = 5"
    by (simp add: positive_labels_def)
  have w: "box_loss_weight example_params = 50" "iou_loss_weight example_params = 1"
    "iou_loss_type example_params = None"
    by (simp_all add: example_params_def)
  show ?thesis
    using detection_loss_normalizer [OF h, of "fst positive_outputs" example_params
        "snd positive_outputs" "\<lambda>outs targets ty. []"] c b n
    by (simp add: m w positive_outputs_def cs hs Let_def)
qed

subsection \<open>Masked positions\<close>

lemma sum_list_map2_zero_mask:
  "list_all (\<lambda>m. m = 0) ms \<Longrightarrow> sum_list (map2 (*) xs ms) = (0::real)"
proof (induction xs arbitrary: ms)
  case Nil
  then show ?case by simp
next
  case (Cons x xs)
  then show ?case by (cases ms) simp_all
qed

lemma ignore_mask_zero:
  "list_all (\<lambda>t. t = - 2) ts \<Longrightarrow>
   list_all (\<lambda>m. m = 0)
     (concat (map (\<lambda>t. replicate c (if t \<noteq> - 2 then 1 else (0::real))) ts))"
  by (induction ts) (simp_all add: list_all_iff)

lemma cls_loss_at_level_ignored:
  "list_all (\<lambda>t. t = - 2) ts \<Longrightarrow> cls_loss_at_level p n co ts = 0"
  unfolding cls_loss_at_level_def Let_def
  by (rule sum_list_map2_zero_mask) (rule ignore_mask_zero)

lemma detection_levels_ignored:
  assumes "all_ignored lbls lvs" and "boxes_present p lbls bo lvs"
  shows "\<exists>bs is. detection_levels iou p lbls bo n lvs = Inr (replicate (length lvs) 0, bs, is)"
  using assms
proof (induction lvs)
  case Nil
  show ?case by simp
next
  case (Cons lv lvs)
  from Cons.prems obtain ts where ts: "cls_targets_at lbls (fst lv) = Some ts"
    and ign: "list_all (\<lambda>t. t = - 2) ts"
    by (auto simp: all_ignored_def split: option.splits)
  from Cons.prems obtain bt where bt: "box_targets_at lbls (fst lv) = Some bt"
    by (auto simp: boxes_present_def)
  from Cons.prems have bo: "(box_loss_weight p = 0 \<and> \<not> truthy (iou_loss_type p)) \<or>
      (\<exists>b. map_of bo (fst lv) = Some b)"
    by (auto simp: boxes_present_def)
  have "\<exists>b i. level_losses iou p lbls bo n lv = Inr (0, b, i)"
    using bo by (auto simp: level_losses_def ts bt cls_loss_at_level_ignored [OF ign] Let_def)
  moreover have "\<exists>bs is. detection_levels iou p lbls bo n lvs = Inr (replicate (length lvs) 0, bs, is)"
    using Cons by (simp add: all_ignored_def boxes_present_def)
  ultimately show ?case by auto
qed

lemma box_loss_zero_targets:
  "list_all (\<lambda>t. t = 0) targets \<Longrightarrow> box_loss outs targets n d = 0"
proof -
  assume z: "list_all (\<lambda>t. t = 0) targets"
  then have "list_all (\<lambda>m. m = 0) (map (\<lambda>t. if t \<noteq> 0.0 then 1 else (0::real)) targets)"
    by (simp add: list_all_iff)
  then have "huber_loss targets outs (map (\<lambda>t. if t \<noteq> 0.0 then 1 else (0::real)) targets) d = 0"
    unfolding huber_loss_def by (rule sum_list_map2_zero_mask)
  then show ?thesis by (simp add: box_loss_def Let_def)
qed

text \<open>
  Claim C4. When the level set is not empty, every class target of every level is the
  ignore sentinel \<open>-2\<close> (and the labels and box outputs every level reads are there, and
  the normalizer is not zero), \<open>detection_loss\<close> returns, and its classification loss
  is exactly 0. When the box targets of a level are all zero, its box regression loss
  (the Huber loss masked to the non-zero targets, summed, divided by
  \<open>num_positives * 4\<close>) is exactly 0.
\<close>

theorem excluded_positions_contribute_nothing:
  "(cls_outputs \<noteq> [] \<and> all_ignored lbls cls_outputs \<and> boxes_present p lbls bo cls_outputs \<and>
      num_positives_sum lbls \<noteq> 0 \<longrightarrow>
      (\<exists>t b i. detection_loss iou cls_outputs bo lbls p = Inr (t, 0, b, i)))
   \<and> (list_all (\<lambda>t. t = 0) targets \<and> n \<noteq> 0 \<longrightarrow> box_loss outs targets n d = 0)"
proof (intro conjI impI)
  assume a: "cls_outputs \<noteq> [] \<and> all_ignored lbls cls_outputs \<and>
    boxes_present p lbls bo cls_outputs \<and> num_positives_sum lbls \<noteq> 0"
  then obtain bs "is" where
    "detection_levels iou p lbls bo (num_positives_sum lbls) cls_outputs =
       Inr (replicate (length cls_outputs) 0, bs, is)"
    using detection_levels_ignored by blast
  moreover have "add_n (replicate (length cls_outputs) 0) = Inr 0"
    using a by (simp add: add_n_def sum_list_replicate)
  ultimately show "\<exists>t b i. detection_loss iou cls_outputs bo lbls p = Inr (t, 0, b, i)"
    by (simp add: detection_loss_def Let_def)
next
  assume "list_all (\<lambda>t. t = 0) targets \<and> n \<noteq> 0"
  then show "box_loss outs targets n d = 0"
    by (simp add: box_loss_zero_targets)
qed

theorem excluded_positions_contribute_nothing_witness:
  "(\<exists>t b i. detection_loss (\<lambda>outs targets ty. []) [(3, [0.5, - 1, 2, 0])]
       [(3, [1, 2, 3, 4, 5, 6, 7, 8])] example_labels example_params = Inr (t, 0, b, i))
   \<and> box_loss [1, 2, 3, 4] [0, 0, 0, 0] 6 0.1 = 0"
proof -
  have "all_ignored example_labels [(3, [0.5, - 1, 2, 0])]"
    by (simp add: all_ignored_def example_labels_def)
  moreover have "boxes_present example_params example_labels [(3, [1, 2, 3, 4, 5, 6, 7, 8])]
      [(3, [0.5, - 1, 2, 0])]"
    by (simp add: boxes_present_def example_labels_def)
  moreover have "num_positives_sum example_labels \<noteq> 0"
    by (simp add: num_positives_sum_def example_labels_def)
  ultimately show ?thesis
    using excluded_positions_contribute_nothing [of "[(3, [0.5, - 1, 2, 0])]" example_labels
        example_params "[(3, [1, 2, 3, 4, 5, 6, 7, 8])]" "\<lambda>outs targets ty. []"
        "[0, 0, 0, 0]" 6 "[1, 2, 3, 4]" "0.1"]
    by simp
qed

subsection \<open>Cosine schedules\<close>

lemma learning_rate_schedule_cosine:
  "lr_decay_method p = ''cosine'' \<Longrightarrow>
   learning_rate_schedule p step =
     Inr (cosine_lr_schedule (adjusted_learning_rate p) (lr_warmup_init p) (lr_warmup_step p)
            (total_steps p) step)"
  by (simp add: learning_rate_schedule_def)

text \<open>
  Claim C5, as stated, fails at the warmup boundary: with \<open>adjusted_lr = 1\<close>,
  \<open>lr_warmup_step = 1\<close> and \<open>total_steps = 2\<close> the cosine schedule returns
  \<open>0.5 * (1 + cos (pi / 2)) = 1/2\<close> at step 1, not \<open>adjusted_lr\<close>.
\<close>

theorem cosine_schedule_counterexample:
  "lr_decay_method example_params = ''cosine''
   \<and> 0 < lr_warmup_step example_params
   \<and> lr_warmup_step example_params < total_steps example_params
   \<and> adjusted_learning_rate example_params = 1
   \<and> learning_rate_schedule example_params (lr_warmup_step example_params) = Inr (1 / 2)"
  by (simp add: example_params_def learning_rate_schedule_def cosine_lr_schedule_def)

text \<open>
  Claim C5, amended. With \<open>lr_decay_method = 'cosine'\<close> and
  \<open>0 < lr_warmup_step < total_steps\<close> the schedule is the linear warmup before the warmup
  step and \<open>adjusted_lr * 0.5 * (1 + cos(pi * step / total_steps))\<close> from it on. At
  \<open>step = lr_warmup_step\<close> the rate is
  \<open>adjusted_lr * 0.5 * (1 + cos(pi * lr_warmup_step / total_steps))\<close>; at
  \<open>step = total_steps\<close> it is 0.
\<close>

theorem cosine_schedule_values:
  assumes "lr_decay_method p = ''cosine''"
    and "0 < lr_warmup_step p" and "lr_warmup_step p < total_steps p"
  shows "(step < lr_warmup_step p \<longrightarrow>
            learning_rate_schedule p step =
              Inr (lr_warmup_init p +
                   (real_of_int step / real_of_int (lr_warmup_step p)) *
                   (adjusted_learning_rate p - lr_warmup_init p)))
       \<and> (lr_warmup_step p \<le> step \<longrightarrow>
            learning_rate_schedule p step =
              Inr (adjusted_learning_rate p * 0.5 *
                   (1 + cos (pi * real_of_int step / real_of_int (total_steps p)))))
       \<and> learning_rate_schedule p (lr_warmup_step p) =
            Inr (adjusted_learning_rate p * 0.5 *
                 (1 + cos (pi * real_of_int (lr_warmup_step p) / real_of_int (total_steps p))))
       \<and> learning_rate_schedule p (total_steps p) = Inr 0"
proof -
  have tot: "real_of_int (total_steps p) \<noteq> 0"
    using assms(2,3) by simp
  have a: "step < lr_warmup_step p \<longrightarrow>
            learning_rate_schedule p step =
              Inr (lr_warmup_init p +
                   (real_of_int step / real_of_int (lr_warmup_step p)) *
                   (adjusted_learning_rate p - lr_warmup_init p))"
    by (simp add: learning_rate_schedule_cosine [OF assms(1)] cosine_lr_schedule_def)
  have b: "lr_warmup_step p \<le> step \<longrightarrow>
            learning_rate_schedule p step =
              Inr (adjusted_learning_rate p * 0.5 *
                   (1 + cos (pi * real_of_int step / real_of_int (total_steps p))))" for step
    by (simp add: learning_rate_schedule_cosine [OF assms(1)] cosine_lr_schedule_def)
  have c: "learning_rate_schedule p (lr_warmup_step p) =
            Inr (adjusted_learning_rate p * 0.5 *
                 (1 + cos (pi * real_of_int (lr_warmup_step p) / real_of_int (total_steps p))))"
    using b [of "lr_warmup_step p"] by simp
  have e: "learning_rate_schedule p (total_steps p) = Inr 0"
    using b [of "total_steps p"] assms(3) tot by simp
  show ?thesis using a b [of step] c e by blast
qed

theorem cosine_schedule_values_witness:
  "learning_rate_schedule example_params 0 = Inr 0
   \<and> learning_rate_schedule example_params 1 = Inr (1 / 2)
   \<and> learning_rate_schedule example_params 2 = Inr 0"
  using cosine_schedule_values [of example_params 0]
  by (simp add: example_params_def)

text \<open>
  Claim C10, as stated, fails for a zero learning rate: with \<open>adjusted_lr = 0\<close> the two
  cosine schedules agree at every step.
\<close>

theorem cosine_variants_counterexample:
  "\<forall>step. cosine_lr_schedule_tf2 0 (1 / 2) 1 2 step = cosine_lr_schedule 0 (1 / 2) 1 2 step"
  by (simp add: cosine_lr_schedule_tf2_def cosine_lr_schedule_def Let_def)

text \<open>
  Claim C10, amended. The two cosine schedules are not the same function: with
  \<open>adjusted_lr = 1\<close>, \<open>lr_warmup_init = 0\<close>, \<open>lr_warmup_step = 1\<close> and \<open>total_steps = 2\<close>, at
  step 1, \<open>cosine_lr_schedule_tf2\<close> returns 1 and \<open>cosine_lr_schedule\<close> returns 1/2. With
  \<open>0 < lr_warmup_step < total_steps\<close>, at \<open>step = lr_warmup_step\<close> the schedule
  \<open>cosine_lr_schedule_tf2\<close> returns \<open>adjusted_lr\<close> and \<open>cosine_lr_schedule\<close> returns
  \<open>adjusted_lr * 0.5 * (1 + cos(pi * lr_warmup_step / total_steps))\<close>.
  \<open>learning_rate_schedule\<close> with method \<open>'cosine'\<close> returns the value of
  \<open>cosine_lr_schedule\<close>.
\<close>

theorem cosine_variants_differ:
  assumes "0 < w" and "w < t"
  shows "cosine_lr_schedule_tf2 adj init w t w = adj
       \<and> cosine_lr_schedule adj init w t w =
           adj * 0.5 * (1 + cos (pi * real_of_int w / real_of_int t))
       \<and> cosine_lr_schedule_tf2 1 0 1 2 1 = 1
       \<and> cosine_lr_schedule 1 0 1 2 1 = 1 / 2
       \<and> cosine_lr_schedule_tf2 \<noteq> cosine_lr_schedule
       \<and> (lr_decay_method p = ''cosine'' \<longrightarrow>
            learning_rate_schedule p step =
              Inr (cosine_lr_schedule (adjusted_learning_rate p) (lr_warmup_init p)
                     (lr_warmup_step p) (total_steps p) step))"
proof -
  have a: "cosine_lr_schedule_tf2 adj init w t w = adj"
    using assms(1) by (simp add: cosine_lr_schedule_tf2_def)
  have b: "cosine_lr_schedule adj init w t w =
           adj * 0.5 * (1 + cos (pi * real_of_int w / real_of_int t))"
    by (simp add: cosine_lr_schedule_def)
  have c: "cosine_lr_schedule_tf2 1 0 1 2 1 = 1"
    by (simp add: cosine_lr_schedule_tf2_def)
  have d: "cosine_lr_schedule 1 0 1 2 1 = 1 / 2"
    by (simp add: cosine_lr_schedule_def)
  have e: "cosine_lr_schedule_tf2 \<noteq> cosine_lr_schedule"
  proof
    assume "cosine_lr_schedule_tf2 = cosine_lr_schedule"
    then have "cosine_lr_schedule_tf2 1 0 1 2 1 = cosine_lr_schedule 1 0 1 2 1"
      by simp
    then show False
      unfolding c d by simp
  qed
  show ?thesis
    using a b c d e learning_rate_schedule_cosine [of p step] by blast
qed

theorem cosine_variants_differ_witness:
  "cosine_lr_schedule_tf2 3 0 2 8 2 = 3
   \<and> cosine_lr_schedule 3 0 2 8 2 = 3 * 0.5 * (1 + cos (pi * 2 / 8))"
  using cosine_variants_differ [of 2 8 3 0]
  by simp

subsection \<open>Schedule parameters\<close>

text \<open>Binary64 rounding: evaluation at a known exponent, the error bound, and the values
  of the concrete instances.\<close>

lemma fl64_eval:
  assumes "2 powi e \<le> \<bar>x\<bar>" and "\<bar>x\<bar> < 2 powi (e + 1)"
  shows "fl64 x = of_int (round_half_even (x / 2 powi (e - 52))) * 2 powi (e - 52)"
proof -
  have p: "(2::real) powr of_int k = 2 powi k" for k
    by (simp add: powr_real_of_int' [symmetric])
  have "(0::real) < 2 powi e"
    by simp
  then have pos: "0 < \<bar>x\<bar>"
    using assms(1) by linarith
  have "2 powr of_int e \<le> \<bar>x\<bar>" and "\<bar>x\<bar> < 2 powr (of_int e + 1)"
    using assms p [of e] p [of "e + 1"] by simp_all
  then have "\<lfloor>log 2 \<bar>x\<bar>\<rfloor> = e"
    using pos by (simp add: floor_log_eq_powr_iff)
  moreover have "x \<noteq> 0" using pos by simp
  ultimately show ?thesis
    by (simp add: fl64_def Let_def)
qed

lemma round_half_even_error: "\<bar>of_int (round_half_even q) - q\<bar> \<le> 1 / 2"
proof -
  have "of_int \<lfloor>q\<rfloor> \<le> q" and "q < of_int \<lfloor>q\<rfloor> + 1"
    by linarith+
  then show ?thesis
    by (auto simp: round_half_even_def Let_def)
qed

lemma fl64_error: "\<bar>fl64 x - x\<bar> \<le> \<bar>x\<bar> / 2 ^ 53"
proof (cases "x = 0")
  case True
  then show ?thesis by (simp add: fl64_def)
next
  case False
  define e where "e = \<lfloor>log 2 \<bar>x\<bar>\<rfloor>"
  define u :: real where "u = 2 powi (e - 52)"
  have p: "(2::real) powr of_int k = 2 powi k" for k
    by (simp add: powr_real_of_int' [symmetric])
  have upos: "0 < u" by (simp add: u_def)
  have "2 powr of_int e \<le> \<bar>x\<bar>"
    using False floor_log_eq_powr_iff [of "\<bar>x\<bar>" 2 e] by (simp add: e_def)
  then have lo: "2 powi e \<le> \<bar>x\<bar>" by (simp add: p)
  have ue: "u * 2 ^ 52 = 2 powi e"
    using power_int_add [of "2::real" "e - 52" 52] by (simp add: u_def)
  have f: "fl64 x = of_int (round_half_even (x / u)) * u"
    using False by (simp add: fl64_def Let_def e_def u_def)
  have "\<bar>fl64 x - x\<bar> = \<bar>of_int (round_half_even (x / u)) - x / u\<bar> * u"
  proof -
    have "fl64 x - x = (of_int (round_half_even (x / u)) - x / u) * u"
      using upos by (simp add: f field_simps)
    then show ?thesis using upos by (simp add: abs_mult)
  qed
  also have "\<dots> \<le> 1 / 2 * u"
    using round_half_even_error [of "x / u"] upos by (intro mult_right_mono) simp_all
  also have "\<dots> = 2 powi e / 2 ^ 53"
    using ue by simp
  also have "\<dots> \<le> \<bar>x\<bar> / 2 ^ 53"
    using lo by (simp add: divide_right_mono)
  finally show ?thesis .
qed

lemma fl64_values:
  "fl64 (25 / 16) = 25 / 16"
  "fl64 64 = 64"
  "fl64 8 = 8"
  "fl64 (1 / 8) = 1 / 8"
  "fl64 100 = 100"
  "fl64 (25 / 2) = 25 / 2"
  "fl64 (25 / 128) = 25 / 128"
  by (simp_all add: fl64_eval [of 0] fl64_eval [of 6] fl64_eval [of 3] fl64_eval [of "- 3"]
      round_half_even_def Let_def)

lemma fl64_coco:
  "fl64 (118287 / 100) = 5202317276589588 / 2 ^ 42"
  "fl64 (5202317276589588 / 2 ^ 42) = 5202317276589588 / 2 ^ 42"
  "fl64 (200 * (5202317276589588 / 2 ^ 42)) = 8128620744671231 / 2 ^ 35"
  "fl64 (250 * (5202317276589588 / 2 ^ 42)) = 5080387965419520 / 2 ^ 34"
  "fl64 (300 * (5202317276589588 / 2 ^ 42)) = 6096465558503423 / 2 ^ 34"
  by (simp_all add: fl64_eval [of 10] fl64_eval [of 17] fl64_eval [of 18]
      round_half_even_def Let_def)

text \<open>
  Claim C6, as stated, fails. With 100 examples per epoch, batch size 64 and one warmup
  epoch, \<open>lr_warmup_step\<close> is \<open>int(1.5625) = 1\<close>, while rounding gives 2. Under the
  Horovod strategy (distributed, 8 shards) the batch size is not multiplied by the
  number of shards: the adjusted rate is \<open>learning_rate * 64 / 64\<close>.
\<close>

theorem update_parameters_counterexample:
  "map_sum id lr_warmup_step (update_learning_rate_schedule_parameters example_params) = Inr 1
   \<and> round (fl64 (lr_warmup_epoch example_params *
        fl64 (real_of_int (num_examples_per_epoch example_params) /
              real_of_int (batch_size example_params)))) = 2
   \<and> num_shards example_params = 8
   \<and> map_sum id adjusted_learning_rate
        (update_learning_rate_schedule_parameters
           (example_params\<lparr>strategy := ''horovod'', learning_rate := 1 / 8\<rparr>)) =
      Inr (1 / 8 * 64 / 64)"
  by (simp add: update_learning_rate_schedule_parameters_def example_params_def py_int_def
      DEFAULT_BATCH_SIZE_def round_def fl64_values Let_def)

text \<open>
  Claim C6, amended. The effective batch size is \<open>batch_size * num_shards\<close> exactly when
  the strategy is \<open>'tpu'\<close>, and \<open>batch_size\<close> otherwise. When it is not zero, in binary64
  arithmetic (each operation rounded, with relative error at most \<open>2^-53\<close>),
  \<open>adjusted_learning_rate = learning_rate * effective_batch_size / 64\<close>,
  \<open>steps_per_epoch = num_examples_per_epoch / effective_batch_size\<close>, and each of
  \<open>lr_warmup_step\<close>, \<open>first_lr_drop_step\<close>, \<open>second_lr_drop_step\<close>, \<open>total_steps\<close> is
  \<open>int(epoch_count * steps_per_epoch)\<close>, the truncation toward zero of the rounded
  product; no other field changes. When it is zero the division raises
  \<open>ZeroDivisionError\<close>.
\<close>

theorem update_parameters_values:
  assumes "bs = (if strategy p = ''tpu'' then batch_size p * num_shards p else batch_size p)"
    and "spe = fl64 (real_of_int (num_examples_per_epoch p) / real_of_int bs)"
  shows "(bs = 0 \<longrightarrow> update_learning_rate_schedule_parameters p = Inl ZeroDivisionError)
       \<and> (bs \<noteq> 0 \<longrightarrow>
            update_learning_rate_schedule_parameters p =
              Inr (p\<lparr>adjusted_learning_rate :=
                       fl64 (fl64 (learning_rate p * fl64 (real_of_int bs)) / 64),
                     lr_warmup_step := py_int (fl64 (lr_warmup_epoch p * spe)),
                     first_lr_drop_step := py_int (fl64 (first_lr_drop_epoch p * spe)),
                     second_lr_drop_step := py_int (fl64 (second_lr_drop_epoch p * spe)),
                     total_steps := py_int (fl64 (num_epochs p * spe))\<rparr>))
       \<and> (\<forall>x. py_int x = (if 0 \<le> x then \<lfloor>x\<rfloor> else \<lceil>x\<rceil>))
       \<and> (\<forall>x. \<bar>fl64 x - x\<bar> \<le> \<bar>x\<bar> / 2 ^ 53)"
  using assms fl64_error
  by (simp add: update_learning_rate_schedule_parameters_def DEFAULT_BATCH_SIZE_def Let_def
      py_int_def fl64_values)

theorem update_parameters_values_witness:
  "map_sum id (\<lambda>q. (adjusted_learning_rate q, lr_warmup_step q, first_lr_drop_step q,
                     second_lr_drop_step q, total_steps q))
     (update_learning_rate_schedule_parameters coco_params) =
   Inr (25 / 128, 1182, 236573, 295717, 354860)"
proof -
  define spe :: real where "spe = 5202317276589588 / 2 ^ 42"
  have b: "(100::int) = (if strategy coco_params = ''tpu''
      then batch_size coco_params * num_shards coco_params else batch_size coco_params)"
    by (simp add: coco_params_def)
  have s: "spe = fl64 (real_of_int (num_examples_per_epoch coco_params) / real_of_int 100)"
    by (simp add: coco_params_def fl64_coco spe_def)
  have e: "lr_warmup_epoch coco_params = 1" "first_lr_drop_epoch coco_params = 200"
    "second_lr_drop_epoch coco_params = 250" "num_epochs coco_params = 300"
    "learning_rate coco_params = 1 / 8"
    by (simp_all add: coco_params_def)
  have f: "fl64 spe = 1300579319147397 / 2 ^ 40"
    "fl64 (200 * spe) = 8128620744671231 / 2 ^ 35"
    "fl64 (250 * spe) = 5080387965419520 / 2 ^ 34"
    "fl64 (300 * spe) = 6096465558503423 / 2 ^ 34"
    unfolding spe_def fl64_coco by simp_all
  have a: "fl64 (fl64 (1 / 8 * fl64 (real_of_int 100)) / 64) = 25 / 128"
    by (simp add: fl64_values)
  show ?thesis
    using update_parameters_values [OF b s]
    by (simp add: e f a py_int_def fl64_values)
qed

subsection \<open>Regularisation loss\<close>

text \<open>
  Claim C9 at a bias-only model: no trainable variable matches the pattern, the list
  given to \<^verbatim>\<open>tf.add_n\<close> is empty, and \<open>reg_l2_loss\<close> raises instead of returning 0.
  (\<open>detection_loss\<close> guards its own \<^verbatim>\<open>tf.add_n\<close> calls on the box losses against the
  empty list.)
\<close>

theorem reg_l2_loss_bias_only:
  "reg_l2_loss (1 / 2) [\<lparr>var_name = ''dense/bias:0'', var_value = [1, 2]\<rparr>] =
     Inl (ValueError
       ''inputs must be a list of at least one Tensor/IndexedSlices with the same dtype and shape'')"
  by (simp add: reg_l2_loss_def add_n_def var_match_def)

text \<open>With a matching variable the loss is \<open>weight_decay\<close> times the \<open>l2_loss\<close> sum over the
  matching variables, and renaming an unmatched variable to an unmatched name changes
  nothing.\<close>

lemma reg_l2_loss_some_match:
  assumes "filter (\<lambda>v. var_match (var_name v)) vs \<noteq> []"
  shows "reg_l2_loss wd vs =
     Inr (wd * sum_list (map (\<lambda>v. l2_loss (var_value v))
                          (filter (\<lambda>v. var_match (var_name v)) vs)))"
  using assms by (simp add: reg_l2_loss_def add_n_def)

lemma reg_l2_loss_no_match:
  assumes "filter (\<lambda>v. var_match (var_name v)) vs = []"
  shows "reg_l2_loss wd vs =
     Inl (ValueError
       ''inputs must be a list of at least one Tensor/IndexedSlices with the same dtype and shape'')"
  using assms by (simp add: reg_l2_loss_def add_n_def)

lemma filter_rename_unmatched:
  assumes "i < length vs" and "\<not> var_match (var_name (vs ! i))" and "\<not> var_match nm"
  shows "filter (\<lambda>v. var_match (var_name v)) (vs[i := (vs ! i)\<lparr>var_name := nm\<rparr>]) =
         filter (\<lambda>v. var_match (var_name v)) vs"
  using assms
proof (induction vs arbitrary: i)
  case Nil
  then show ?case by simp
next
  case (Cons v vs)
  then show ?case by (cases i) simp_all
qed

lemma reg_l2_loss_rename_unmatched:
  assumes "i < length vs" and "\<not> var_match (var_name (vs ! i))" and "\<not> var_match nm"
  shows "reg_l2_loss wd (vs[i := (vs ! i)\<lparr>var_name := nm\<rparr>]) = reg_l2_loss wd vs"
  by (simp add: reg_l2_loss_def filter_rename_unmatched [OF assms])

subsection \<open>String helpers\<close>

lemma py_in_iff: "py_in sub s \<longleftrightarrow> (\<exists>ps ss. s = ps @ sub @ ss)"
proof (induction s)
  case Nil
  then show ?case by auto
next
  case (Cons c cs)
  show ?case
  proof
    assume "py_in sub (c # cs)"
    then consider "prefix sub (c # cs)" | "py_in sub cs" by auto
    then show "\<exists>ps ss. c # cs = ps @ sub @ ss"
    proof cases
      case 1
      then obtain ss where "c # cs = sub @ ss" by (auto simp: prefix_def)
      then have "c # cs = [] @ sub @ ss" by simp
      then show ?thesis by blast
    next
      case 2
      then obtain ps ss where "cs = ps @ sub @ ss" using Cons.IH by blast
      then have "c # cs = (c # ps) @ sub @ ss" by simp
      then show ?thesis by blast
    qed
  next
    assume "\<exists>ps ss. c # cs = ps @ sub @ ss"
    then obtain ps ss where e: "c # cs = ps @ sub @ ss" by blast
    show "py_in sub (c # cs)"
    proof (cases ps)
      case Nil
      then have "prefix sub (c # cs)" using e by (simp add: prefix_def)
      then show ?thesis by simp
    next
      case (Cons q qs)
      then have "cs = qs @ sub @ ss" using e by simp
      then have "py_in sub cs" using Cons.IH by blast
      then show ?thesis by simp
    qed
  qed
qed

lemma py_in_suffix: "py_in sub (pre @ sub)"
  unfolding py_in_iff by (metis append_Nil2)

lemma lower_sgd_adam: "lower ''sgd'' = ''sgd'' \<and> lower ''adam'' = ''adam''"
  by code_simp

lemma lower_rmsprop: "lower ''rmsprop'' \<noteq> ''sgd'' \<and> lower ''rmsprop'' \<noteq> ''adam''"
  by code_simp

subsection \<open>Training orchestrator\<close>

lemma detection_loss_all_ignored:
  assumes "cls_outputs \<noteq> []" and "all_ignored lbls cls_outputs"
    and "boxes_present p lbls bo cls_outputs"
  shows "\<exists>t b i. detection_loss iou cls_outputs bo lbls p = Inr (t, 0, b, i)"
proof -
  obtain bs "is" where
    "detection_levels iou p lbls bo (num_positives_sum lbls) cls_outputs =
       Inr (replicate (length cls_outputs) 0, bs, is)"
    using detection_levels_ignored [OF assms(2,3)] by blast
  moreover have "add_n (replicate (length cls_outputs) 0) = Inr 0"
    using assms(1) by (simp add: add_n_def sum_list_replicate)
  ultimately show ?thesis
    by (simp add: detection_loss_def Let_def)
qed

lemma update_keeps:
  assumes "update_learning_rate_schedule_parameters p = Inr p'"
  shows "ckpt p' = ckpt p" and "backbone_ckpt p' = backbone_ckpt p"
    and "optimizer p' = optimizer p" and "lr_decay_method p' = lr_decay_method p"
    and "strategy p' = strategy p" and "box_loss_weight p' = box_loss_weight p"
    and "iou_loss_type p' = iou_loss_type p" and "weight_decay p' = weight_decay p"
  using assms
  by (auto simp: update_learning_rate_schedule_parameters_def Let_def split: if_splits)

lemma select_scaffold_conflict:
  assumes "truthy (ckpt p)" and "truthy (backbone_ckpt p)"
  shows "select_scaffold TRAIN p =
     Inl (RuntimeError ''--backbone_ckpt and --checkpoint are mutually exclusive'')"
  using assms by (cases "ckpt p") (simp_all add: select_scaffold_def)

lemma train_stage_ok:
  assumes "lower (optimizer p) = ''sgd'' \<or> lower (optimizer p) = ''adam''"
  shows "\<exists>t. train_stage TRAIN p lr tr = (tr @ [GradientBuild], Inr (Some t))"
  using assms by (auto simp: train_stage_def select_optimizer_def)

lemma train_stage_bad:
  assumes "lower (optimizer p) \<noteq> ''sgd''" and "lower (optimizer p) \<noteq> ''adam''"
  shows "train_stage TRAIN p lr tr = (tr, Inl (ValueError ''optimizers should be adam or sgd''))"
  using assms by (simp add: train_stage_def select_optimizer_def)

lemma train_stage_cases:
  "(\<exists>e. train_stage TRAIN p lr tr = (tr, Inl e)) \<or>
   (\<exists>t. train_stage TRAIN p lr tr = (tr @ [GradientBuild], Inr (Some t)))"
  by (auto simp: train_stage_def split: sum.splits)

lemma model_fn_conflict:
  assumes "truthy (ckpt p)" and "truthy (backbone_ckpt p)"
    and "update_learning_rate_schedule_parameters p = Inr p'"
    and "learning_rate_schedule p' gs = Inr lr0"
    and "detection_loss iou (fst out) (snd out) lbls p' = Inr losses"
    and "reg_l2_loss (weight_decay p') vs = Inr reg"
    and "lower (optimizer p) = ''sgd'' \<or> lower (optimizer p) = ''adam''"
  shows "model_fn iou h vs gs out lbls TRAIN p =
     ([ForwardPass, LossGraph, GradientBuild],
      Inl (RuntimeError ''--backbone_ckpt and --checkpoint are mutually exclusive''))"
proof -
  let ?lr = "if strategy p' = ''horovod'' then lr0 * real h else lr0"
  have opt: "lower (optimizer p') = ''sgd'' \<or> lower (optimizer p') = ''adam''"
    using assms(7) update_keeps(3) [OF assms(3)] by simp
  obtain t where t: "train_stage TRAIN p' ?lr [ForwardPass, LossGraph] =
      ([ForwardPass, LossGraph] @ [GradientBuild], Inr (Some t))"
    using train_stage_ok [OF opt] by blast
  have sc: "select_scaffold TRAIN p' =
      Inl (RuntimeError ''--backbone_ckpt and --checkpoint are mutually exclusive'')"
    using assms(1,2) update_keeps(1,2) [OF assms(3)] by (intro select_scaffold_conflict) simp_all
  show ?thesis
    unfolding model_fn_def Let_def using t
    by (simp add: assms(3,4,5,6) sc)
qed

lemma model_fn_raises_on_conflict:
  assumes "truthy (ckpt p)" and "truthy (backbone_ckpt p)"
  shows "\<exists>e. snd (model_fn iou h vs gs out lbls TRAIN p) = Inl e"
proof (cases "update_learning_rate_schedule_parameters p")
  case (Inl e)
  then show ?thesis by (simp add: model_fn_def)
next
  case (Inr p')
  have sc: "select_scaffold TRAIN p' =
      Inl (RuntimeError ''--backbone_ckpt and --checkpoint are mutually exclusive'')"
    using assms update_keeps(1,2) [OF Inr] by (intro select_scaffold_conflict) simp_all
  show ?thesis
    unfolding model_fn_def Let_def
    using train_stage_cases [of p']
    by (auto simp: Inr sc split: sum.splits)
qed

lemma model_fn_trace_head:
  "hd (fst (model_fn iou h vs gs out lbls md p)) = ForwardPass"
  unfolding model_fn_def Let_def
  by (cases md) (auto simp: train_stage_def split: sum.splits)

lemma model_fn_unknown_method:
  assumes "md \<noteq> PREDICT"
    and "lr_decay_method p \<notin> {''stepwise'', ''cosine'', ''polynomial'', ''constant''}"
    and "(if strategy p = ''tpu'' then batch_size p * num_shards p else batch_size p) \<noteq> 0"
  shows "model_fn iou h vs gs out lbls md p =
     ([ForwardPass], Inl (ValueError (''unknown lr_decay_method: '' @ lr_decay_method p)))"
proof -
  obtain p' where p': "update_learning_rate_schedule_parameters p = Inr p'"
    using assms(3) by (simp add: update_learning_rate_schedule_parameters_def Let_def)
  have "learning_rate_schedule p' gs =
      Inl (ValueError (''unknown lr_decay_method: '' @ lr_decay_method p))"
    using assms(2) update_keeps(4) [OF p'] by (simp add: learning_rate_schedule_def)
  then show ?thesis
    using assms(1) by (simp add: model_fn_def p')
qed

lemma model_fn_unknown_optimizer:
  assumes "lower (optimizer p) \<noteq> ''sgd''" and "lower (optimizer p) \<noteq> ''adam''"
    and "update_learning_rate_schedule_parameters p = Inr p'"
    and "learning_rate_schedule p' gs = Inr lr0"
    and "detection_loss iou (fst out) (snd out) lbls p' = Inr losses"
    and "reg_l2_loss (weight_decay p') vs = Inr reg"
  shows "model_fn iou h vs gs out lbls TRAIN p =
     ([ForwardPass, LossGraph], Inl (ValueError ''optimizers should be adam or sgd''))"
proof -
  have "lower (optimizer p') \<noteq> ''sgd''" and "lower (optimizer p') \<noteq> ''adam''"
    using assms(1,2) update_keeps(3) [OF assms(3)] by simp_all
  then show ?thesis
    unfolding model_fn_def Let_def
    by (simp add: assms(3,4,5,6) train_stage_bad)
qed

lemma example_update:
  "\<exists>p'. update_learning_rate_schedule_parameters
          (example_params\<lparr>optimizer := o1, ckpt := c1, backbone_ckpt := c2\<rparr>) = Inr p'
        \<and> lr_decay_method p' = ''cosine'' \<and> box_loss_weight p' = 50 \<and> iou_loss_type p' = None"
  by (simp add: update_learning_rate_schedule_parameters_def example_params_def Let_def)

lemma example_detection_loss:
  assumes "box_loss_weight p = 50" and "iou_loss_type p = None"
  shows "\<exists>losses. detection_loss iou (fst example_outputs) (snd example_outputs) example_labels p
           = Inr losses"
proof -
  have "all_ignored example_labels (fst example_outputs)"
    by (simp add: all_ignored_def example_labels_def example_outputs_def)
  moreover have "boxes_present p example_labels (snd example_outputs) (fst example_outputs)"
    by (simp add: boxes_present_def example_labels_def example_outputs_def)
  moreover have "fst example_outputs \<noteq> []"
    by (simp add: example_outputs_def)
  ultimately show ?thesis
    using detection_loss_all_ignored [of "fst example_outputs" example_labels p
        "snd example_outputs" iou] by blast
qed

lemma example_reg: "\<exists>reg. reg_l2_loss wd example_variables = Inr reg"
  by (simp add: reg_l2_loss_def add_n_def example_variables_def var_match_def)

lemma example_stages:
  "\<exists>p' lr0 losses reg.
     update_learning_rate_schedule_parameters
       (example_params\<lparr>optimizer := o1, ckpt := c1, backbone_ckpt := c2\<rparr>) = Inr p'
     \<and> learning_rate_schedule p' gs = Inr lr0
     \<and> detection_loss iou (fst example_outputs) (snd example_outputs) example_labels p' = Inr losses
     \<and> reg_l2_loss (weight_decay p') example_variables = Inr reg"
proof -
  obtain p' where p': "update_learning_rate_schedule_parameters
          (example_params\<lparr>optimizer := o1, ckpt := c1, backbone_ckpt := c2\<rparr>) = Inr p'"
    and m: "lr_decay_method p' = ''cosine''"
    and b: "box_loss_weight p' = 50" "iou_loss_type p' = None"
    using example_update by blast
  have "\<exists>lr0. learning_rate_schedule p' gs = Inr lr0"
    by (simp add: learning_rate_schedule_def m)
  then show ?thesis
    using p' example_detection_loss [OF b] example_reg by blast
qed

text \<open>
  Claim C7, as stated, fails on the order of events: with both checkpoints supplied in
  TRAIN mode the conflict is raised, but only after the forward pass, the loss graph
  and the gradients have been built.
\<close>

theorem checkpoint_conflict_counterexample:
  "model_fn (\<lambda>outs targets ty. []) 1 example_variables 0 example_outputs example_labels TRAIN
     (example_params\<lparr>optimizer := ''sgd'', ckpt := Some ''full'', backbone_ckpt := Some ''backbone''\<rparr>) =
   ([ForwardPass, LossGraph, GradientBuild],
    Inl (RuntimeError ''--backbone_ckpt and --checkpoint are mutually exclusive''))"
proof -
  let ?p = "example_params\<lparr>optimizer := ''sgd'', ckpt := Some ''full'',
              backbone_ckpt := Some ''backbone''\<rparr>"
  obtain p' lr0 losses reg where
    s1: "update_learning_rate_schedule_parameters ?p = Inr p'" and
    s2: "learning_rate_schedule p' 0 = Inr lr0" and
    s3: "detection_loss (\<lambda>outs targets ty. []) (fst example_outputs) (snd example_outputs)
       example_labels p' = Inr losses" and
    s4: "reg_l2_loss (weight_decay p') example_variables = Inr reg"
    using example_stages [where ?o1.0 = "''sgd''" and ?c1.0 = "Some ''full''"
        and ?c2.0 = "Some ''backbone''" and gs = 0] by blast
  have t1: "truthy (ckpt ?p)" and t2: "truthy (backbone_ckpt ?p)"
    by simp_all
  have o: "lower (optimizer ?p) = ''sgd'' \<or> lower (optimizer ?p) = ''adam''"
    using lower_sgd_adam by simp
  show ?thesis
    by (rule model_fn_conflict [OF t1 t2 s1 s2 s3 s4 o])
qed

text \<open>
  Claim C7, amended. In TRAIN mode, with a non-empty \<open>ckpt\<close> and a non-empty
  \<open>backbone_ckpt\<close>, the model function returns no estimator spec: it raises. The forward
  pass is always built first. When the stages before the restore setup succeed (schedule
  parameters, learning-rate schedule, losses, optimizer selection), the exception is
  the conflict \<^verbatim>\<open>RuntimeError\<close>, raised after the forward pass, the loss graph and the
  gradients have been built.
\<close>

theorem checkpoint_conflict_raised:
  assumes "truthy (ckpt p)" and "truthy (backbone_ckpt p)"
  shows "(\<exists>e. snd (model_fn iou h vs gs out lbls TRAIN p) = Inl e)
       \<and> hd (fst (model_fn iou h vs gs out lbls TRAIN p)) = ForwardPass
       \<and> (\<forall>p' lr0 losses reg.
            update_learning_rate_schedule_parameters p = Inr p' \<and>
            learning_rate_schedule p' gs = Inr lr0 \<and>
            detection_loss iou (fst out) (snd out) lbls p' = Inr losses \<and>
            reg_l2_loss (weight_decay p') vs = Inr reg \<and>
            (lower (optimizer p) = ''sgd'' \<or> lower (optimizer p) = ''adam'') \<longrightarrow>
            model_fn iou h vs gs out lbls TRAIN p =
              ([ForwardPass, LossGraph, GradientBuild],
               Inl (RuntimeError ''--backbone_ckpt and --checkpoint are mutually exclusive'')))"
proof (intro conjI allI impI)
  show "\<exists>e. snd (model_fn iou h vs gs out lbls TRAIN p) = Inl e"
    by (rule model_fn_raises_on_conflict [OF assms])
next
  show "hd (fst (model_fn iou h vs gs out lbls TRAIN p)) = ForwardPass"
    by (rule model_fn_trace_head)
next
  fix p' lr0 losses reg
  assume "update_learning_rate_schedule_parameters p = Inr p' \<and>
            learning_rate_schedule p' gs = Inr lr0 \<and>
            detection_loss iou (fst out) (snd out) lbls p' = Inr losses \<and>
            reg_l2_loss (weight_decay p') vs = Inr reg \<and>
            (lower (optimizer p) = ''sgd'' \<or> lower (optimizer p) = ''adam'')"
  then show "model_fn iou h vs gs out lbls TRAIN p =
              ([ForwardPass, LossGraph, GradientBuild],
               Inl (RuntimeError ''--backbone_ckpt and --checkpoint are mutually exclusive''))"
    by (intro model_fn_conflict [OF assms, of p' gs lr0 iou out lbls losses vs reg]) simp_all
qed

theorem checkpoint_conflict_raised_witness:
  "(\<exists>e. snd (model_fn (\<lambda>outs targets ty. []) 1 example_variables 0 example_outputs
             example_labels TRAIN
             (example_params\<lparr>ckpt := Some ''full'', backbone_ckpt := Some ''backbone''\<rparr>)) = Inl e)
   \<and> hd (fst (model_fn (\<lambda>outs targets ty. []) 1 example_variables 0 example_outputs
             example_labels TRAIN
             (example_params\<lparr>ckpt := Some ''full'', backbone_ckpt := Some ''backbone''\<rparr>))) =
       ForwardPass"
  using checkpoint_conflict_raised
    [of "example_params\<lparr>ckpt := Some ''full'', backbone_ckpt := Some ''backbone''\<rparr>"
        "\<lambda>outs targets ty. []" 1 example_variables 0 example_outputs example_labels]
  by simp

text \<open>
  Claim C8, as stated, fails for the optimizer: the optimizer \<open>'rmsprop'\<close> is rejected
  only after the forward pass and the loss graph have been built, and the message does
  not contain the offending value.
\<close>

theorem dispatchers_counterexample:
  "model_fn (\<lambda>outs targets ty. []) 1 example_variables 0 example_outputs example_labels TRAIN
     (example_params\<lparr>optimizer := ''rmsprop'', ckpt := None, backbone_ckpt := None\<rparr>) =
   ([ForwardPass, LossGraph], Inl (ValueError ''optimizers should be adam or sgd''))
   \<and> \<not> py_in ''rmsprop'' ''optimizers should be adam or sgd''"
proof
  let ?p = "example_params\<lparr>optimizer := ''rmsprop'', ckpt := None, backbone_ckpt := None\<rparr>"
  obtain p' lr0 losses reg where
    s1: "update_learning_rate_schedule_parameters ?p = Inr p'" and
    s2: "learning_rate_schedule p' 0 = Inr lr0" and
    s3: "detection_loss (\<lambda>outs targets ty. []) (fst example_outputs) (snd example_outputs)
       example_labels p' = Inr losses" and
    s4: "reg_l2_loss (weight_decay p') example_variables = Inr reg"
    using example_stages [where ?o1.0 = "''rmsprop''" and ?c1.0 = None and ?c2.0 = None
        and gs = 0] by blast
  have o1: "lower (optimizer ?p) \<noteq> ''sgd''" and o2: "lower (optimizer ?p) \<noteq> ''adam''"
    using lower_rmsprop by simp_all
  show "model_fn (\<lambda>outs targets ty. []) 1 example_variables 0 example_outputs
      example_labels TRAIN ?p =
      ([ForwardPass, LossGraph], Inl (ValueError ''optimizers should be adam or sgd''))"
    by (rule model_fn_unknown_optimizer [OF o1 o2 s1 s2 s3 s4])
next
  show "\<not> py_in ''rmsprop'' ''optimizers should be adam or sgd''"
    by simp
qed

text \<open>
  Claim C8, amended. \<open>learning_rate_schedule\<close> raises a \<^verbatim>\<open>ValueError\<close> whose message ends
  with the offending value for an \<open>lr_decay_method\<close> outside stepwise, cosine, polynomial,
  constant; \<open>get_model_fn\<close> raises a \<^verbatim>\<open>ValueError\<close> whose message ends with the model
  name when the name contains neither \<open>retinanet\<close> nor \<open>efficientdet\<close>; the optimizer
  selection raises a \<^verbatim>\<open>ValueError\<close> for an optimizer whose lower-case form is neither
  \<open>sgd\<close> nor \<open>adam\<close>. Inside the model function (not in PREDICT mode, effective batch
  size not zero) the unknown method is rejected after the forward pass and before the
  loss graph; the unknown optimizer (TRAIN mode, earlier stages succeeding) after the
  forward pass and the loss graph, before the gradients are built.
\<close>

theorem dispatchers_reject_unknown:
  "(lr_decay_method p \<notin> {''stepwise'', ''cosine'', ''polynomial'', ''constant''} \<longrightarrow>
      learning_rate_schedule p gs =
        Inl (ValueError (''unknown lr_decay_method: '' @ lr_decay_method p)) \<and>
      py_in (lr_decay_method p) (''unknown lr_decay_method: '' @ lr_decay_method p))
   \<and> (\<not> py_in ''retinanet'' nm \<and> \<not> py_in ''efficientdet'' nm \<longrightarrow>
      get_model_fn nm = Inl (ValueError (''Invalide model name '' @ nm)) \<and>
      py_in nm (''Invalide model name '' @ nm))
   \<and> (lower (optimizer p) \<notin> {''sgd'', ''adam''} \<longrightarrow>
      (\<exists>msg. select_optimizer p lr = Inl (ValueError msg)))
   \<and> (md \<noteq> PREDICT \<and>
      lr_decay_method p \<notin> {''stepwise'', ''cosine'', ''polynomial'', ''constant''} \<and>
      (if strategy p = ''tpu'' then batch_size p * num_shards p else batch_size p) \<noteq> 0 \<longrightarrow>
      model_fn iou h vs gs out lbls md p =
        ([ForwardPass], Inl (ValueError (''unknown lr_decay_method: '' @ lr_decay_method p))))
   \<and> (lower (optimizer p) \<notin> {''sgd'', ''adam''} \<and>
      update_learning_rate_schedule_parameters p = Inr p' \<and>
      learning_rate_schedule p' gs = Inr lr0 \<and>
      detection_loss iou (fst out) (snd out) lbls p' = Inr losses \<and>
      reg_l2_loss (weight_decay p') vs = Inr reg \<longrightarrow>
      (\<exists>msg. model_fn iou h vs gs out lbls TRAIN p = ([ForwardPass, LossGraph], Inl (ValueError msg))))"
proof (intro conjI impI)
  assume "lr_decay_method p \<notin> {''stepwise'', ''cosine'', ''polynomial'', ''constant''}"
  then show "learning_rate_schedule p gs =
      Inl (ValueError (''unknown lr_decay_method: '' @ lr_decay_method p))"
    by (simp add: learning_rate_schedule_def)
next
  show "py_in (lr_decay_method p) (''unknown lr_decay_method: '' @ lr_decay_method p)"
    by (rule py_in_suffix)
next
  assume "\<not> py_in ''retinanet'' nm \<and> \<not> py_in ''efficientdet'' nm"
  then show "get_model_fn nm = Inl (ValueError (''Invalide model name '' @ nm))"
    by (simp add: get_model_fn_def)
next
  show "py_in nm (''Invalide model name '' @ nm)"
    by (rule py_in_suffix)
next
  assume "lower (optimizer p) \<notin> {''sgd'', ''adam''}"
  then show "\<exists>msg. select_optimizer p lr = Inl (ValueError msg)"
    by (simp add: select_optimizer_def)
next
  assume "md \<noteq> PREDICT \<and>
      lr_decay_method p \<notin> {''stepwise'', ''cosine'', ''polynomial'', ''constant''} \<and>
      (if strategy p = ''tpu'' then batch_size p * num_shards p else batch_size p) \<noteq> 0"
  then show "model_fn iou h vs gs out lbls md p =
        ([ForwardPass], Inl (ValueError (''unknown lr_decay_method: '' @ lr_decay_method p)))"
    by (intro model_fn_unknown_method) simp_all
next
  assume a: "lower (optimizer p) \<notin> {''sgd'', ''adam''} \<and>
      update_learning_rate_schedule_parameters p = Inr p' \<and>
      learning_rate_schedule p' gs = Inr lr0 \<and>
      detection_loss iou (fst out) (snd out) lbls p' = Inr losses \<and>
      reg_l2_loss (weight_decay p') vs = Inr reg"
  then have "model_fn iou h vs gs out lbls TRAIN p =
     ([ForwardPass, LossGraph], Inl (ValueError ''optimizers should be adam or sgd''))"
    by (intro model_fn_unknown_optimizer [of p p' gs lr0 iou out lbls losses vs reg]) simp_all
  then show "\<exists>msg. model_fn iou h vs gs out lbls TRAIN p =
      ([ForwardPass, LossGraph], Inl (ValueError msg))"
    by blast
qed

theorem dispatchers_reject_unknown_witness:
  "learning_rate_schedule (example_params\<lparr>lr_decay_method := ''linear''\<rparr>) 0 =
     Inl (ValueError ''unknown lr_decay_method: linear'')
   \<and> get_model_fn ''yolo'' = Inl (ValueError ''Invalide model name yolo'')
   \<and> model_fn (\<lambda>outs targets ty. []) 1 example_variables 0 example_outputs example_labels EVAL
       (example_params\<lparr>lr_decay_method := ''linear''\<rparr>) =
     ([ForwardPass], Inl (ValueError ''unknown lr_decay_method: linear''))"
  using dispatchers_reject_unknown
    [of "example_params\<lparr>lr_decay_method := ''linear''\<rparr>" 0 "''yolo''" 0 EVAL
        "\<lambda>outs targets ty. []" 1 example_variables example_outputs example_labels]
  by (simp add: example_params_def)

end
